theory Spec2Isabelle
  imports Main "HOL-Library.Word" "HOL-Library.AList" "HOL-Library.Sublist"
begin

unbundle bit_operations_syntax

section \<open>bore-go: the client of the bore TCP tunnel\<close>

text \<open>
  A shallow embedding of \<^verbatim>\<open>protocol.go\<close>, \<^verbatim>\<open>auth.go\<close>, \<^verbatim>\<open>client.go\<close> and
  \<^verbatim>\<open>proxy.go\<close>. Go's \<^verbatim>\<open>[]byte\<close> and \<^verbatim>\<open>string\<close> are both lists of 8-bit characters;
  a \<^verbatim>\<open>uint16\<close> is a \<open>16 word\<close>. Every function that touches a socket takes the state
  of the socket and returns the new one. What the peer and the operating system do is
  part of the socket's state: the results of the \<^verbatim>\<open>Read\<close> and \<^verbatim>\<open>Write\<close> calls still to
  come are scripts, and every theorem holds for every script.
\<close>

type_synonym bytes = "char list"

subsection \<open>Constants (protocol.go, lines 16 to 25)\<close>

definition ControlPort :: "16 word" where
  "ControlPort = 7835"

definition MaxFrameLength :: nat where
  "MaxFrameLength = 256"

subsection \<open>Errors\<close>

text \<open>
  One constructor for each error value the code builds or meets. The first five are
  what the standard library hands back from a socket: \<open>EOF\<close> is \<^verbatim>\<open>io.EOF\<close>, the
  three \<open>Op\<close> errors are \<^verbatim>\<open>*net.OpError\<close> values (the only ones here that implement
  \<^verbatim>\<open>net.Error\<close>; \<open>OpTimeout\<close> is the one whose \<^verbatim>\<open>Timeout()\<close> is true),
  \<open>ErrShortWrite\<close> is \<^verbatim>\<open>io.ErrShortWrite\<close>. The others are the
  \<^verbatim>\<open>fmt.Errorf\<close> and \<^verbatim>\<open>errors.New\<close> values of the repository, named after their
  message; a constructor with an \<open>error\<close> argument wraps it (\<^verbatim>\<open>%w\<close>).
\<close>

datatype error =
    EOF
  | OpTimeout
  | OpClosed
  | OpOther string
  | ErrShortWrite
  | MarshalError string
  | FrameTooLarge nat
  | EmptyFrame
  | TimedOutWaiting error
  | UnexpectedUnitMessage string
  | InvalidServerMessage
  | ExpectedSingleField nat
  | InvalidHelloMessage
  | InvalidChallengeMessage
  | InvalidChallengeUUID
  | InvalidConnectionMessage
  | InvalidConnectionUUID
  | InvalidErrorMessage
  | UnknownMessageKind string
  | Unreachable
  | ErrUnexpectedEOF
  | ErrUnexpectedHandshake
  | DialError string "16 word" error
  | ServerErrorText string
  | AuthenticationRequired
  | UnexpectedInitialMessage string
  | ConnectToServerForProxy error
  | ConnectToLocalService error
  | WriteBufferedToLocal error
  | NilPointerDereference

text \<open>\<^verbatim>\<open>errors.Is\<close>: the error or one it wraps is the target.\<close>

fun errors_Is :: "error \<Rightarrow> error \<Rightarrow> bool" where
  "errors_Is (TimedOutWaiting e) t = (TimedOutWaiting e = t \<or> errors_Is e t)"
| "errors_Is (DialError h p e) t = (DialError h p e = t \<or> errors_Is e t)"
| "errors_Is (ConnectToServerForProxy e) t = (ConnectToServerForProxy e = t \<or> errors_Is e t)"
| "errors_Is (ConnectToLocalService e) t = (ConnectToLocalService e = t \<or> errors_Is e t)"
| "errors_Is (WriteBufferedToLocal e) t = (WriteBufferedToLocal e = t \<or> errors_Is e t)"
| "errors_Is e t = (e = t)"

text \<open>\<^verbatim>\<open>nerr, ok := err.(net.Error); ok && nerr.Timeout()\<close>: a type assertion on the
  error itself, which does not look through wrappers.\<close>

fun is_net_timeout :: "error \<Rightarrow> bool" where
  "is_net_timeout OpTimeout = True"
| "is_net_timeout e = False"

subsection \<open>The socket (\<^verbatim>\<open>net.Conn\<close>)\<close>

text \<open>
  \<open>rx\<close> is the script of the results of the \<^verbatim>\<open>Read\<close> calls still to come on an open
  socket: a chunk of bytes the peer sent, or an error (a deadline that expired, a
  reset). When the script is exhausted the peer has closed its side and \<^verbatim>\<open>Read\<close>
  gives \<^verbatim>\<open>io.EOF\<close>. \<open>tx\<close> is the script of the \<^verbatim>\<open>Write\<close> calls still to come:
  \<open>WrOk\<close> takes all the bytes, \<open>WrFail n e\<close> takes at most \<open>n\<close> of them and fails with
  \<open>e\<close>; an exhausted script takes everything. \<open>sent\<close> are the bytes the socket has
  taken so far, in order. \<open>closes\<close> counts the calls of \<^verbatim>\<open>Close\<close>. The two deadline
  fields say whether a deadline is set.
\<close>

datatype rd_event = RdData bytes | RdErr error

datatype wr_event = WrOk | WrFail nat error

record netconn =
  rx :: "rd_event list"
  tx :: "wr_event list"
  sent :: bytes
  closes :: nat
  rd_deadline :: bool
  wr_deadline :: bool

definition is_closed :: "netconn \<Rightarrow> bool" where
  "is_closed c = (0 < closes c)"

text \<open>Every operation on a closed socket fails with "use of closed network
  connection", \<^verbatim>\<open>Close\<close> included; the call of \<^verbatim>\<open>Close\<close> is counted all the same.\<close>

definition conn_Close :: "netconn \<Rightarrow> error option \<times> netconn" where
  "conn_Close c =
     (if is_closed c then (Some OpClosed, c\<lparr>closes := Suc (closes c)\<rparr>)
      else (None, c\<lparr>closes := Suc (closes c)\<rparr>))"

definition SetReadDeadline :: "bool \<Rightarrow> netconn \<Rightarrow> error option \<times> netconn" where
  "SetReadDeadline b c =
     (if is_closed c then (Some OpClosed, c) else (None, c\<lparr>rd_deadline := b\<rparr>))"

definition SetWriteDeadline :: "bool \<Rightarrow> netconn \<Rightarrow> error option \<times> netconn" where
  "SetWriteDeadline b c =
     (if is_closed c then (Some OpClosed, c) else (None, c\<lparr>wr_deadline := b\<rparr>))"

definition SetDeadline :: "bool \<Rightarrow> netconn \<Rightarrow> error option \<times> netconn" where
  "SetDeadline b c =
     (if is_closed c then (Some OpClosed, c)
      else (None, c\<lparr>rd_deadline := b, wr_deadline := b\<rparr>))"

definition conn_Read :: "netconn \<Rightarrow> (error + bytes) \<times> netconn" where
  "conn_Read c =
     (if is_closed c then (Inl OpClosed, c)
      else (case rx c of
              [] \<Rightarrow> (Inl EOF, c)
            | RdData bs # evs \<Rightarrow> (Inr bs, c\<lparr>rx := evs\<rparr>)
            | RdErr e # evs \<Rightarrow> (Inl e, c\<lparr>rx := evs\<rparr>)))"

text \<open>\<^verbatim>\<open>Write\<close> returns the number of bytes taken and the error.\<close>

definition conn_Write :: "bytes \<Rightarrow> netconn \<Rightarrow> (nat \<times> error option) \<times> netconn" where
  "conn_Write p c =
     (if is_closed c then ((0, Some OpClosed), c)
      else (case tx c of
              [] \<Rightarrow> ((length p, None), c\<lparr>sent := sent c @ p\<rparr>)
            | WrOk # evs \<Rightarrow> ((length p, None), c\<lparr>sent := sent c @ p, tx := evs\<rparr>)
            | WrFail n e # evs \<Rightarrow>
                ((min n (length p), Some e),
                 c\<lparr>sent := sent c @ take (min n (length p)) p, tx := evs\<rparr>)))"

subsection \<open>The framed connection (protocol.go, lines 27 to 123)\<close>

text \<open>
  \<open>d_conn\<close> is the socket, \<open>d_r\<close> the bytes \<^verbatim>\<open>bufio.Reader\<close> has read from the socket
  and not yet handed out, \<open>d_w\<close> the bytes \<^verbatim>\<open>bufio.Writer\<close> has buffered and not yet
  written, \<open>d_werr\<close> the writer's sticky error.
\<close>

record Delimited =
  d_conn :: netconn
  d_r :: bytes
  d_w :: bytes
  d_werr :: "error option"

definition NewDelimited :: "netconn \<Rightarrow> Delimited" where
  "NewDelimited c = \<lparr>d_conn = c, d_r = [], d_w = [], d_werr = None\<rparr>"

text \<open>The size of the buffer of a \<^verbatim>\<open>bufio.Writer\<close> made by \<^verbatim>\<open>bufio.NewWriter\<close>.\<close>

definition defaultBufSize :: nat where
  "defaultBufSize = 4096"

definition Available :: "Delimited \<Rightarrow> nat" where
  "Available d = defaultBufSize - length (d_w d)"

text \<open>\<^verbatim>\<open>bufio.Writer.Flush\<close>: one \<^verbatim>\<open>Write\<close> on the socket with everything buffered; a
  short write without an error is \<^verbatim>\<open>io.ErrShortWrite\<close>; an error keeps what the
  socket did not take and sticks.\<close>

definition Flush :: "Delimited \<Rightarrow> error option \<times> Delimited" where
  "Flush d =
     (case d_werr d of
        Some e \<Rightarrow> (Some e, d)
      | None \<Rightarrow>
          if d_w d = [] then (None, d)
          else (case conn_Write (d_w d) (d_conn d) of
                  ((n, err), c') \<Rightarrow>
                    (case (if n < length (d_w d) \<and> err = None then Some ErrShortWrite else err) of
                       Some e \<Rightarrow> (Some e, d\<lparr>d_conn := c', d_w := drop n (d_w d), d_werr := Some e\<rparr>)
                     | None \<Rightarrow> (None, d\<lparr>d_conn := c', d_w := []\<rparr>))))"

text \<open>\<^verbatim>\<open>bufio.Writer.Write\<close>. While the bytes do not fit and no error has stuck: with an
  empty buffer they are written to the socket directly, otherwise the buffer is filled
  up and flushed. What is left is buffered.\<close>

function bufio_Write :: "bytes \<Rightarrow> Delimited \<Rightarrow> error option \<times> Delimited" where
  "bufio_Write p d =
     (if Available d < length p \<and> d_werr d = None then
        (if d_w d = [] then
           (case conn_Write p (d_conn d) of
              ((n, err), c') \<Rightarrow> bufio_Write (drop n p) (d\<lparr>d_conn := c', d_werr := err\<rparr>))
         else
           bufio_Write (drop (Available d) p)
             (snd (Flush (d\<lparr>d_w := d_w d @ take (Available d) p\<rparr>))))
      else (case d_werr d of
              Some e \<Rightarrow> (Some e, d)
            | None \<Rightarrow> (None, d\<lparr>d_w := d_w d @ p\<rparr>)))"
  by pat_completeness auto

lemma conn_Write_ok_all: "conn_Write p c = ((n, None), c') \<Longrightarrow> n = length p"
  by (auto simp: conn_Write_def split: if_splits list.splits wr_event.splits)

termination bufio_Write
proof (relation "measure (\<lambda>(p, d). if d_werr d \<noteq> None then 0
                                 else 2 * length p + (if d_w d = [] then 0 else 1))",
       goal_cases)
  case 1
  show ?case by simp
next
  case (2 p d x c' n err)
  then have w: "conn_Write p (d_conn d) = ((n, err), c')" by simp
  show ?case
  proof (cases err)
    case None
    with w have "n = length p" by (simp add: conn_Write_ok_all)
    with None 2 show ?thesis by auto
  next
    case (Some e)
    with 2 show ?thesis by auto
  qed
next
  case (3 p d)
  then show ?case
    by (auto simp: Flush_def split: option.splits prod.splits if_splits)
qed

declare bufio_Write.simps [simp del]

text \<open>\<^verbatim>\<open>bufio.Writer.WriteByte\<close>.\<close>

definition WriteByte :: "char \<Rightarrow> Delimited \<Rightarrow> error option \<times> Delimited" where
  "WriteByte b d =
     (case d_werr d of
        Some e \<Rightarrow> (Some e, d)
      | None \<Rightarrow>
          if Available d \<le> 0 then
            (case Flush d of
               (Some e, d') \<Rightarrow> (d_werr d', d')
             | (None, d') \<Rightarrow> (None, d'\<lparr>d_w := d_w d' @ [b]\<rparr>))
          else (None, d\<lparr>d_w := d_w d @ [b]\<rparr>))"

text \<open>
  \<^verbatim>\<open>SendJSON\<close> (lines 44 to 62). \<^verbatim>\<open>json.Marshal\<close> is the parameter \<open>marshal\<close>:
  from a value to its encoding or an error.
\<close>

definition SendJSON :: "('v \<Rightarrow> error + bytes) \<Rightarrow> 'v \<Rightarrow> Delimited \<Rightarrow> error option \<times> Delimited" where
  "SendJSON marshal v d =
     (case marshal v of
        Inl err \<Rightarrow> (Some err, d)
      | Inr payload \<Rightarrow>
          if MaxFrameLength < length payload then (Some (FrameTooLarge (length payload)), d)
          else (case SetWriteDeadline True (d_conn d) of
                  (Some err, c) \<Rightarrow> (Some err, d\<lparr>d_conn := c\<rparr>)
                | (None, c) \<Rightarrow>
                    (case bufio_Write payload (d\<lparr>d_conn := c\<rparr>) of
                       (Some err, d1) \<Rightarrow> (Some err, d1)
                     | (None, d1) \<Rightarrow>
                         (case WriteByte (CHR 0x00) d1 of
                            (Some err, d2) \<Rightarrow> (Some err, d2)
                          | (None, d2) \<Rightarrow> Flush d2))))"

text \<open>
  \<^verbatim>\<open>bufio.Reader.ReadBytes(delim)\<close>: reads until the first occurrence of \<open>delim\<close> and
  returns the data up to and including the delimiter; when a \<^verbatim>\<open>Read\<close> of the socket
  fails before a delimiter is found, it returns the data read before the error and the
  error itself. The reader's buffer is modelled without its size of 4096 bytes
  (\<^verbatim>\<open>ReadBytes\<close> collects full buffers, so its result does not depend on the size), and
  a \<^verbatim>\<open>Read\<close> that returns no byte and no error is read again.
\<close>

function ReadBytes :: "char \<Rightarrow> Delimited \<Rightarrow> (bytes \<times> error option) \<times> Delimited" where
  "ReadBytes delim d =
     (if delim \<in> set (d_r d) then
        ((takeWhile (\<lambda>b. b \<noteq> delim) (d_r d) @ [delim], None),
         d\<lparr>d_r := tl (dropWhile (\<lambda>b. b \<noteq> delim) (d_r d))\<rparr>)
      else (case conn_Read (d_conn d) of
              (Inl e, c') \<Rightarrow> ((d_r d, Some e), d\<lparr>d_conn := c', d_r := []\<rparr>)
            | (Inr bs, c') \<Rightarrow> ReadBytes delim (d\<lparr>d_conn := c', d_r := d_r d @ bs\<rparr>)))"
  by pat_completeness auto

termination ReadBytes
proof (relation "measure (\<lambda>(delim, d). length (rx (d_conn d)))", goal_cases)
  case 1
  show ?case by simp
next
  case (2 delim d x c' bs)
  then show ?case
    by (auto simp: conn_Read_def split: if_splits list.splits rd_event.splits)
qed

declare ReadBytes.simps [simp del]

text \<open>\<^verbatim>\<open>bytes.TrimSuffix\<close>.\<close>

definition TrimSuffix :: "bytes \<Rightarrow> bytes \<Rightarrow> bytes" where
  "TrimSuffix s suf =
     (if length suf \<le> length s \<and> drop (length s - length suf) s = suf
      then take (length s - length suf) s else s)"

text \<open>
  \<^verbatim>\<open>RecvFrame\<close> (lines 66 to 96). The three results of the Go function are one value:
  \<open>Inl err\<close> is \<^verbatim>\<open>(nil, false, err)\<close>, \<open>Inr None\<close> is \<^verbatim>\<open>(nil, false, nil)\<close> and
  \<open>Inr (Some frame)\<close> is \<^verbatim>\<open>(frame, true, nil)\<close>.
\<close>

definition RecvFrame :: "bool \<Rightarrow> Delimited \<Rightarrow> (error + bytes option) \<times> Delimited" where
  "RecvFrame timeout d =
     (case (if timeout then SetReadDeadline True (d_conn d)
            else SetReadDeadline False (d_conn d)) of
        (Some err, c) \<Rightarrow> (Inl err, d\<lparr>d_conn := c\<rparr>)
      | (None, c) \<Rightarrow>
          (case ReadBytes (CHR 0x00) (d\<lparr>d_conn := c\<rparr>) of
             ((frame, Some err), d') \<Rightarrow>
               if errors_Is err EOF then (Inr None, d')
               else if is_net_timeout err then (Inl (TimedOutWaiting err), d')
               else (Inl err, d')
           | ((frame, None), d') \<Rightarrow>
               if length frame = 0 then (Inl EmptyFrame, d')
               else (let frame' = TrimSuffix frame [CHR 0x00] in
                     if MaxFrameLength < length frame'
                     then (Inl (FrameTooLarge (length frame')), d')
                     else (Inr (Some frame'), d'))))"

text \<open>\<^verbatim>\<open>BufferedData\<close> (lines 99 to 113). \<^verbatim>\<open>Peek(n)\<close> and \<^verbatim>\<open>Discard(n)\<close> with
  \<open>n\<close> the number of buffered bytes touch the buffer only and cannot fail.\<close>

definition BufferedData :: "Delimited \<Rightarrow> (error + bytes) \<times> Delimited" where
  "BufferedData d =
     (let buffered = length (d_r d) in
      if buffered = 0 then (Inr [], d)
      else (Inr (take buffered (d_r d)), d\<lparr>d_r := drop buffered (d_r d)\<rparr>))"

definition Close :: "Delimited \<Rightarrow> error option \<times> Delimited" where
  "Close d = (case conn_Close (d_conn d) of (err, c) \<Rightarrow> (err, d\<lparr>d_conn := c\<rparr>))"

definition RawConn :: "Delimited \<Rightarrow> netconn" where
  "RawConn d = d_conn d"

subsection \<open>What a framed connection is about to receive\<close>

text \<open>
  For the statements only: \<open>pending evs\<close> are the bytes the script delivers before its
  first error, \<open>ending evs\<close> is that error (\<^verbatim>\<open>io.EOF\<close> when the peer closes without
  one). \<open>incoming d\<close> are the bytes an open framed connection has buffered or is about
  to be sent.
\<close>

fun pending :: "rd_event list \<Rightarrow> bytes" where
  "pending [] = []"
| "pending (RdData bs # evs) = bs @ pending evs"
| "pending (RdErr e # evs) = []"

fun ending :: "rd_event list \<Rightarrow> error" where
  "ending [] = EOF"
| "ending (RdData bs # evs) = ending evs"
| "ending (RdErr e # evs) = e"

definition incoming :: "Delimited \<Rightarrow> bytes" where
  "incoming d = d_r d @ pending (rx (d_conn d))"

subsection \<open>The standard library's JSON and the UUID package\<close>

text \<open>
  A JSON text as \<^verbatim>\<open>encoding/json\<close> reads it: the members of an object in the order of
  the text, a repeated key included; a number as its literal. The scanner itself, from
  bytes to the value or a syntax error, is the parameter \<open>json_scan\<close> below.
\<close>

datatype json =
    JNull
  | JBool bool
  | JNumber string
  | JString string
  | JArray "json list"
  | JObject "(string \<times> json) list"

text \<open>A \<^verbatim>\<open>uuid.UUID\<close> is an array of 16 bytes.\<close>

type_synonym uuid = bytes

definition uuid_Nil :: uuid where
  "uuid_Nil = replicate 16 (CHR 0x00)"

text \<open>The values the client marshals: \<^verbatim>\<open>map[string]interface{}\<close> with one entry, whose
  value is a \<^verbatim>\<open>uint16\<close>, a string or a UUID.\<close>

datatype go_value =
    VUint16 "16 word"
  | VString string
  | VUUID uuid
  | VMap "(string \<times> go_value) list"

text \<open>
  What the code takes from outside of the repository, as parameters:
  \<open>json_scan\<close> is the syntax check and reading of \<^verbatim>\<open>json.Unmarshal\<close>, \<open>json_Marshal\<close> is
  \<^verbatim>\<open>json.Marshal\<close>, \<open>uuid_Parse\<close> is \<^verbatim>\<open>uuid.Parse\<close>, \<open>net_Dial\<close> is what
  \<^verbatim>\<open>net.DialTimeout\<close> gives for a host and a port at the n-th dial of a run (a fresh
  socket with its scripts, or an error), \<open>time_Now\<close> is the reading of the clock
  (\<^verbatim>\<open>time.Now().UnixNano()\<close>) at the n-th message of the receive loop.
\<close>

record env =
  json_scan :: "bytes \<Rightarrow> json option"
  json_Marshal :: "go_value \<Rightarrow> error + bytes"
  uuid_Parse :: "string \<Rightarrow> uuid option"
  net_Dial :: "string \<Rightarrow> 16 word \<Rightarrow> nat \<Rightarrow> error + netconn"
  time_Now :: "nat \<Rightarrow> 64 word"

text \<open>
  \<^verbatim>\<open>json.Unmarshal\<close> into a \<^verbatim>\<open>string\<close>, a \<^verbatim>\<open>uint16\<close> and a
  \<^verbatim>\<open>map[string]json.RawMessage\<close>, on a value that scanned; \<open>None\<close> is the error. All
  three take \<^verbatim>\<open>null\<close> and leave the target as it was (the empty string, zero, the nil
  map). A number goes into a \<^verbatim>\<open>uint16\<close> when its literal is digits only
  (\<^verbatim>\<open>strconv.ParseUint\<close>) and it does not overflow. A map takes the members in order,
  a later member replacing an earlier one with the same key.
\<close>

fun Unmarshal_string :: "json \<Rightarrow> string option" where
  "Unmarshal_string (JString s) = Some s"
| "Unmarshal_string JNull = Some []"
| "Unmarshal_string j = None"

definition is_digit :: "char \<Rightarrow> bool" where
  "is_digit c = (48 \<le> (of_char c :: nat) \<and> (of_char c :: nat) \<le> 57)"

definition ParseUint :: "string \<Rightarrow> nat option" where
  "ParseUint lit =
     (if lit \<noteq> [] \<and> list_all is_digit lit
      then Some (foldl (\<lambda>n c. 10 * n + (of_char c - 48)) 0 lit)
      else None)"

fun Unmarshal_uint16 :: "json \<Rightarrow> 16 word option" where
  "Unmarshal_uint16 (JNumber lit) =
     (case ParseUint lit of
        None \<Rightarrow> None
      | Some n \<Rightarrow> if n < 65536 then Some (of_nat n) else None)"
| "Unmarshal_uint16 JNull = Some 0"
| "Unmarshal_uint16 j = None"

fun Unmarshal_map :: "json \<Rightarrow> (string \<times> json) list option" where
  "Unmarshal_map (JObject members) =
     Some (fold (\<lambda>(k, v) obj. AList.update k v obj) members [])"
| "Unmarshal_map JNull = Some []"
| "Unmarshal_map j = None"

subsection \<open>Server messages (protocol.go, lines 125 to 221)\<close>

type_synonym ServerMessageKind = string

definition ServerHello :: ServerMessageKind where
  "ServerHello = ''hello''"

definition ServerChallenge :: ServerMessageKind where
  "ServerChallenge = ''challenge''"

definition ServerHeartbeat :: ServerMessageKind where
  "ServerHeartbeat = ''heartbeat''"

definition ServerConnection :: ServerMessageKind where
  "ServerConnection = ''connection''"

definition ServerError :: ServerMessageKind where
  "ServerError = ''error''"

record ServerMessage =
  Kind :: ServerMessageKind
  Port :: "16 word"
  ID :: uuid
  ErrorText :: string

text \<open>\<^verbatim>\<open>ServerMessage{}\<close>, the zero value.\<close>

definition ServerMessage_zero :: ServerMessage where
  "ServerMessage_zero = \<lparr>Kind = [], Port = 0, ID = uuid_Nil, ErrorText = []\<rparr>"

text \<open>
  \<^verbatim>\<open>decodeServerMessage\<close> (lines 144 to 199). The loop over the map runs on a map of
  one entry and returns in its first round. The raw message of the entry is the JSON
  value of the member.
\<close>

definition decodeServerMessage :: "env \<Rightarrow> bytes \<Rightarrow> error + ServerMessage" where
  "decodeServerMessage E data =
     (case Option.bind (json_scan E data) Unmarshal_string of
        Some unit_str \<Rightarrow>
          if unit_str = ''Heartbeat'' then Inr (ServerMessage_zero\<lparr>Kind := ServerHeartbeat\<rparr>)
          else Inl (UnexpectedUnitMessage unit_str)
      | None \<Rightarrow>
          (case Option.bind (json_scan E data) Unmarshal_map of
             None \<Rightarrow> Inl InvalidServerMessage
           | Some obj \<Rightarrow>
               if length obj \<noteq> 1 then Inl (ExpectedSingleField (length obj))
               else (case obj of
                       [] \<Rightarrow> Inl Unreachable
                     | (k, v) # rest \<Rightarrow>
                         if k = ''Hello'' then
                           (case Unmarshal_uint16 v of
                              None \<Rightarrow> Inl InvalidHelloMessage
                            | Some port \<Rightarrow>
                                Inr (ServerMessage_zero\<lparr>Kind := ServerHello, Port := port\<rparr>))
                         else if k = ''Challenge'' then
                           (case Unmarshal_string v of
                              None \<Rightarrow> Inl InvalidChallengeMessage
                            | Some raw \<Rightarrow>
                                (case uuid_Parse E raw of
                                   None \<Rightarrow> Inl InvalidChallengeUUID
                                 | Some uid \<Rightarrow>
                                     Inr (ServerMessage_zero\<lparr>Kind := ServerChallenge, ID := uid\<rparr>)))
                         else if k = ''Connection'' then
                           (case Unmarshal_string v of
                              None \<Rightarrow> Inl InvalidConnectionMessage
                            | Some raw \<Rightarrow>
                                (case uuid_Parse E raw of
                                   None \<Rightarrow> Inl InvalidConnectionUUID
                                 | Some uid \<Rightarrow>
                                     Inr (ServerMessage_zero\<lparr>Kind := ServerConnection, ID := uid\<rparr>)))
                         else if k = ''Error'' then
                           (case Unmarshal_string v of
                              None \<Rightarrow> Inl InvalidErrorMessage
                            | Some msg \<Rightarrow>
                                Inr (ServerMessage_zero\<lparr>Kind := ServerError, ErrorText := msg\<rparr>))
                         else Inl (UnknownMessageKind k))))"

definition encodeHello :: "16 word \<Rightarrow> go_value" where
  "encodeHello port = VMap [(''Hello'', VUint16 port)]"

definition encodeAuthenticate :: "string \<Rightarrow> go_value" where
  "encodeAuthenticate tag = VMap [(''Authenticate'', VString tag)]"

definition encodeAccept :: "uuid \<Rightarrow> go_value" where
  "encodeAccept uid = VMap [(''Accept'', VUUID uid)]"

text \<open>\<^verbatim>\<open>RecvServer\<close> (lines 214 to 221): \<open>Inl err\<close> is an error, \<open>Inr None\<close> is
  \<^verbatim>\<open>ok == false\<close> without one, \<open>Inr (Some msg)\<close> is a message.\<close>

definition RecvServer :: "env \<Rightarrow> bool \<Rightarrow> Delimited \<Rightarrow> (error + ServerMessage option) \<times> Delimited" where
  "RecvServer E timeout d =
     (case RecvFrame timeout d of
        (Inl err, d') \<Rightarrow> (Inl err, d')
      | (Inr None, d') \<Rightarrow> (Inr None, d')
      | (Inr (Some frame), d') \<Rightarrow>
          (case decodeServerMessage E frame of
             Inl err \<Rightarrow> (Inl err, d')
           | Inr msg \<Rightarrow> (Inr (Some msg), d')))"

subsection \<open>The standard library's SHA-256, HMAC and hex encoding\<close>

text \<open>
  \<^verbatim>\<open>crypto/sha256\<close> as FIPS 180-4 defines it, on 32-bit words: the padding of the
  message to blocks of 64 bytes with its length in bits, the message schedule of 64
  words for each block, 64 rounds on eight working variables. The round constants and
  the initial hash value are written in decimal.
\<close>

definition rotr :: "nat \<Rightarrow> 32 word \<Rightarrow> 32 word" where
  "rotr n x = (drop_bit n x) OR (push_bit (32 - n) x)"

definition Ch :: "32 word \<Rightarrow> 32 word \<Rightarrow> 32 word \<Rightarrow> 32 word" where
  "Ch x y z = (x AND y) XOR (NOT x AND z)"

definition Maj :: "32 word \<Rightarrow> 32 word \<Rightarrow> 32 word \<Rightarrow> 32 word" where
  "Maj x y z = (x AND y) XOR (x AND z) XOR (y AND z)"

definition bsig0 :: "32 word \<Rightarrow> 32 word" where
  "bsig0 x = rotr 2 x XOR rotr 13 x XOR rotr 22 x"

definition bsig1 :: "32 word \<Rightarrow> 32 word" where
  "bsig1 x = rotr 6 x XOR rotr 11 x XOR rotr 25 x"

definition ssig0 :: "32 word \<Rightarrow> 32 word" where
  "ssig0 x = rotr 7 x XOR rotr 18 x XOR drop_bit 3 x"

definition ssig1 :: "32 word \<Rightarrow> 32 word" where
  "ssig1 x = rotr 17 x XOR rotr 19 x XOR drop_bit 10 x"

definition sha256_K :: "32 word list" where
  "sha256_K =
     [
      1116352408, 1899447441, 3049323471, 3921009573,
      961987163, 1508970993, 2453635748, 2870763221,
      3624381080, 310598401, 607225278, 1426881987,
      1925078388, 2162078206, 2614888103, 3248222580,
      3835390401, 4022224774, 264347078, 604807628,
      770255983, 1249150122, 1555081692, 1996064986,
      2554220882, 2821834349, 2952996808, 3210313671,
      3336571891, 3584528711, 113926993, 338241895,
      666307205, 773529912, 1294757372, 1396182291,
      1695183700, 1986661051, 2177026350, 2456956037,
      2730485921, 2820302411, 3259730800, 3345764771,
      3516065817, 3600352804, 4094571909, 275423344,
      430227734, 506948616, 659060556, 883997877,
      958139571, 1322822218, 1537002063, 1747873779,
      1955562222, 2024104815, 2227730452, 2361852424,
      2428436474, 2756734187, 3204031479, 3329325298]"

definition sha256_init :: "32 word list" where
  "sha256_init =
     [
      1779033703, 3144134277, 1013904242, 2773480762,
      1359893119, 2600822924, 528734635, 1541459225]"

text \<open>The message schedule, newest word first: from the 16 words of the block to 64.\<close>

fun sha256_schedule :: "nat \<Rightarrow> 32 word list \<Rightarrow> 32 word list" where
  "sha256_schedule 0 w = w"
| "sha256_schedule (Suc n) w =
     sha256_schedule n ((ssig1 (w ! 1) + w ! 6 + ssig0 (w ! 14) + w ! 15) # w)"

fun sha256_round :: "32 word \<times> 32 word \<Rightarrow> 32 word list \<Rightarrow> 32 word list" where
  "sha256_round (k, w) [a, b, c, d, e, f, g, h] =
     (let t1 = h + bsig1 e + Ch e f g + k + w;
          t2 = bsig0 a + Maj a b c
      in [t1 + t2, a, b, c, d + t1, e, f, g])"
| "sha256_round kw s = s"

definition be32 :: "bytes \<Rightarrow> 32 word" where
  "be32 bs = foldl (\<lambda>acc b. push_bit 8 acc OR of_nat (of_char b)) 0 bs"

fun be_words :: "bytes \<Rightarrow> 32 word list" where
  "be_words (a # b # c # d # rest) = be32 [a, b, c, d] # be_words rest"
| "be_words bs = []"

definition be_bytes :: "nat \<Rightarrow> 'a::len word \<Rightarrow> bytes" where
  "be_bytes n x = map (\<lambda>i. char_of (unat (drop_bit (8 * (n - 1 - i)) x AND 0xff))) [0..<n]"

definition sha256_compress :: "bytes \<Rightarrow> 32 word list \<Rightarrow> 32 word list" where
  "sha256_compress block h =
     map2 (+) h
       (fold sha256_round (zip sha256_K (rev (sha256_schedule 48 (rev (be_words block))))) h)"

fun sha256_blocks :: "nat \<Rightarrow> bytes \<Rightarrow> bytes list" where
  "sha256_blocks 0 bs = []"
| "sha256_blocks (Suc n) bs = take 64 bs # sha256_blocks n (drop 64 bs)"

definition sha256_pad :: "bytes \<Rightarrow> bytes" where
  "sha256_pad msg =
     msg @ [CHR 0x80] @ replicate ((119 - length msg mod 64) mod 64) (CHR 0x00)
       @ be_bytes 8 (of_nat (8 * length msg) :: 64 word)"

definition sha256_Sum256 :: "bytes \<Rightarrow> bytes" where
  "sha256_Sum256 msg =
     concat (map (be_bytes 4)
       (fold sha256_compress
          (sha256_blocks (length (sha256_pad msg) div 64) (sha256_pad msg)) sha256_init))"

text \<open>
  \<^verbatim>\<open>crypto/hmac\<close> over SHA-256. An \<^verbatim>\<open>hmac\<close> value keeps the two pads and the inner
  hash; the state of the inner hash is the bytes written to it. \<^verbatim>\<open>hmac.New\<close> hashes a
  key longer than the block size of 64 bytes, fills the key with zero bytes to the
  block size, makes the pads and writes the inner pad.
\<close>

record hmac =
  opad :: bytes
  ipad :: bytes
  inner :: bytes

definition xor_byte :: "nat \<Rightarrow> char \<Rightarrow> char" where
  "xor_byte n b = char_of (of_char b XOR n)"

definition sha256_BlockSize :: nat where
  "sha256_BlockSize = 64"

definition hmac_New :: "bytes \<Rightarrow> hmac" where
  "hmac_New k =
     (let k' = (if sha256_BlockSize < length k then sha256_Sum256 k else k);
          padded = k' @ replicate (sha256_BlockSize - length k') (CHR 0x00)
      in \<lparr>opad = map (xor_byte 0x5c) padded,
          ipad = map (xor_byte 0x36) padded,
          inner = map (xor_byte 0x36) padded\<rparr>)"

definition hmac_Write :: "bytes \<Rightarrow> hmac \<Rightarrow> hmac" where
  "hmac_Write p h = h\<lparr>inner := inner h @ p\<rparr>"

definition hmac_Sum :: "bytes \<Rightarrow> hmac \<Rightarrow> bytes" where
  "hmac_Sum b h = b @ sha256_Sum256 (opad h @ sha256_Sum256 (inner h))"

text \<open>\<^verbatim>\<open>hex.EncodeToString\<close>, with the table of \<^verbatim>\<open>encoding/hex\<close>.\<close>

definition hextable :: string where
  "hextable = ''0123456789abcdef''"

definition EncodeToString :: "bytes \<Rightarrow> string" where
  "EncodeToString src =
     concat (map (\<lambda>b. [hextable ! (of_char b div 16), hextable ! (of_char b mod 16)]) src)"

subsection \<open>The authenticator (auth.go)\<close>

record Authenticator =
  a_key :: bytes

definition NewAuthenticator :: "string \<Rightarrow> Authenticator" where
  "NewAuthenticator secret = \<lparr>a_key = sha256_Sum256 secret\<rparr>"

definition Answer :: "Authenticator \<Rightarrow> uuid \<Rightarrow> string" where
  "Answer a challenge =
     (let mac = hmac_New (a_key a);
          mac = hmac_Write challenge mac
      in EncodeToString (hmac_Sum [] mac))"

definition ClientHandshake :: "env \<Rightarrow> Authenticator \<Rightarrow> Delimited \<Rightarrow> error option \<times> Delimited" where
  "ClientHandshake E a conn =
     (case RecvServer E True conn of
        (Inl err, conn') \<Rightarrow> (Some err, conn')
      | (Inr None, conn') \<Rightarrow> (Some ErrUnexpectedEOF, conn')
      | (Inr (Some msg), conn') \<Rightarrow>
          if Kind msg \<noteq> ServerChallenge then (Some ErrUnexpectedHandshake, conn')
          else (let tag = Answer a (ID msg)
                in SendJSON (json_Marshal E) (encodeAuthenticate tag) conn'))"

text \<open>
  The authentication tag as the protocol states it, for comparison with \<open>Answer\<close>:
  HMAC (RFC 2104) with SHA-256 of the message under the key, both pads made from the
  key filled with zero bytes to 64 bytes; in hexadecimal.
\<close>

definition HMAC_SHA256 :: "bytes \<Rightarrow> bytes \<Rightarrow> bytes" where
  "HMAC_SHA256 k msg =
     (let k' = (if 64 < length k then sha256_Sum256 k else k);
          k0 = k' @ replicate (64 - length k') (CHR 0x00)
      in sha256_Sum256 (map (xor_byte 0x5c) k0 @ sha256_Sum256 (map (xor_byte 0x36) k0 @ msg)))"

definition spec_tag :: "string \<Rightarrow> uuid \<Rightarrow> string" where
  "spec_tag secret challenge =
     EncodeToString (HMAC_SHA256 (sha256_Sum256 secret) challenge)"

subsection \<open>The client (client.go)\<close>

text \<open>
  \<open>c_conn\<close> is a pointer in the source and \<open>None\<close> is \<^verbatim>\<open>nil\<close>; \<open>c_auth\<close> likewise. The
  three atomic values are fields; \<open>c_closeOnce\<close> is the \<^verbatim>\<open>sync.Once\<close>, true once its
  function has run.
\<close>

record Client =
  c_conn :: "Delimited option"
  c_to :: string
  c_localHost :: string
  c_localPort :: "16 word"
  c_remotePort :: "16 word"
  c_auth :: "Authenticator option"
  c_connected :: bool
  c_activeProxies :: "64 word"
  c_lastHeartbeat :: "64 word"
  c_closeOnce :: bool

text \<open>The lines \<^verbatim>\<open>log.Printf\<close> writes, and the goroutines a \<^verbatim>\<open>go\<close> statement starts:
  a started goroutine is recorded, and runs on its own.\<close>

datatype log_entry =
    LogConnected "16 word"
  | LogProxyEnded uuid error
  | LogUnexpectedControl ServerMessageKind
  | LogUnknownServerMessage ServerMessage

datatype goroutine =
    CloseWhenDone
  | HandleConnection uuid

definition connectWithTimeout :: "env \<Rightarrow> string \<Rightarrow> 16 word \<Rightarrow> nat \<Rightarrow> error + netconn" where
  "connectWithTimeout E host port n =
     (case net_Dial E host port n of
        Inl err \<Rightarrow> Inl (DialError host port err)
      | Inr conn \<Rightarrow> Inr conn)"

text \<open>
  \<^verbatim>\<open>NewClient\<close> (lines 165 to 220). The result is the error or the client, then the
  socket that was dialled, in its last state (\<open>None\<close> when the dial failed), then
  the lines logged.
\<close>

definition NewClient ::
  "env \<Rightarrow> string \<Rightarrow> 16 word \<Rightarrow> string \<Rightarrow> 16 word \<Rightarrow> string
     \<Rightarrow> (error + Client) \<times> netconn option \<times> log_entry list" where
  "NewClient E localHost localPort to desiredPort secret =
     (case connectWithTimeout E to ControlPort 0 of
        Inl err \<Rightarrow> (Inl err, None, [])
      | Inr conn \<Rightarrow>
          (let framed = NewDelimited conn;
               auth = (if secret \<noteq> [] then Some (NewAuthenticator secret) else None)
           in case (case auth of
                      None \<Rightarrow> (None, framed)
                    | Some a \<Rightarrow> ClientHandshake E a framed) of
                (Some err, framed) \<Rightarrow>
                  (Inl err, Some (snd (conn_Close (d_conn framed))), [])
              | (None, framed) \<Rightarrow>
                  (case SendJSON (json_Marshal E) (encodeHello desiredPort) framed of
                     (Some err, framed) \<Rightarrow>
                       (Inl err, Some (snd (conn_Close (d_conn framed))), [])
                   | (None, framed) \<Rightarrow>
                       (case RecvServer E True framed of
                          (Inl err, framed) \<Rightarrow>
                            (Inl err, Some (snd (conn_Close (d_conn framed))), [])
                        | (Inr None, framed) \<Rightarrow>
                            (Inl ErrUnexpectedEOF, Some (snd (conn_Close (d_conn framed))), [])
                        | (Inr (Some msg), framed) \<Rightarrow>
                            if Kind msg = ServerHello then
                              (Inr \<lparr>c_conn = Some framed, c_to = to, c_localHost = localHost,
                                    c_localPort = localPort, c_remotePort = Port msg,
                                    c_auth = auth, c_connected = True, c_activeProxies = 0,
                                    c_lastHeartbeat = 0, c_closeOnce = False\<rparr>,
                               Some (d_conn framed), [LogConnected (Port msg)])
                            else if Kind msg = ServerError then
                              (Inl (ServerErrorText (ErrorText msg)),
                               Some (snd (conn_Close (d_conn framed))), [])
                            else if Kind msg = ServerChallenge then
                              (Inl AuthenticationRequired,
                               Some (snd (conn_Close (d_conn framed))), [])
                            else
                              (Inl (UnexpectedInitialMessage (Kind msg)),
                               Some (snd (conn_Close (d_conn framed))), [])))))"

definition RemotePort :: "Client \<Rightarrow> 16 word" where
  "RemotePort c = c_remotePort c"

definition Connected :: "Client \<Rightarrow> bool" where
  "Connected c = c_connected c"

definition ActiveProxies :: "Client \<Rightarrow> 64 word" where
  "ActiveProxies c = c_activeProxies c"

definition LastHeartbeat :: "Client \<Rightarrow> 64 word option" where
  "LastHeartbeat c = (if c_lastHeartbeat c = 0 then None else Some (c_lastHeartbeat c))"

text \<open>
  \<^verbatim>\<open>Close\<close> of the client (lines 247 to 256). \<^verbatim>\<open>closeOnce.Do\<close> runs its function in
  the first call only, and a call that arrives while the function runs waits for it:
  calls of \<^verbatim>\<open>Close\<close> from several goroutines take effect one after the other.
\<close>

definition Client_Close :: "Client \<Rightarrow> error option \<times> Client" where
  "Client_Close c =
     (if c_closeOnce c then (None, c)
      else (let c = c\<lparr>c_connected := False\<rparr> in
            case c_conn c of
              None \<Rightarrow> (None, c\<lparr>c_closeOnce := True\<rparr>)
            | Some d \<Rightarrow>
                (case Close d of
                   (err, d') \<Rightarrow> (err, c\<lparr>c_conn := Some d', c_closeOnce := True\<rparr>))))"

text \<open>
  \<^verbatim>\<open>Listen\<close> (lines 259 to 300). \<open>rt_go\<close> are the goroutines started so far, \<open>rt_log\<close>
  the lines logged, \<open>rt_now\<close> the number of readings of the clock. \<open>Listen_iter\<close> is one
  round of the \<^verbatim>\<open>for\<close> loop: it goes on to the next round or returns. A receiver that
  is \<^verbatim>\<open>nil\<close> makes the round panic. The goroutine that closes the client when the
  context is done is started and recorded; a run of \<open>Listen\<close> here is one in which the
  context is not cancelled before the loop ends.
\<close>

record runtime =
  rt_client :: Client
  rt_go :: "goroutine list"
  rt_log :: "log_entry list"
  rt_now :: nat

datatype flow = Continue | Return "error option"

definition Listen_iter :: "env \<Rightarrow> runtime \<Rightarrow> flow \<times> runtime" where
  "Listen_iter E rt =
     (case c_conn (rt_client rt) of
        None \<Rightarrow> (Return (Some NilPointerDereference), rt)
      | Some d \<Rightarrow>
          (case RecvServer E False d of
             (Inl err, d') \<Rightarrow> (Return (Some err), rt\<lparr>rt_client := (rt_client rt)\<lparr>c_conn := Some d'\<rparr>\<rparr>)
           | (Inr None, d') \<Rightarrow> (Return None, rt\<lparr>rt_client := (rt_client rt)\<lparr>c_conn := Some d'\<rparr>\<rparr>)
           | (Inr (Some msg), d') \<Rightarrow>
               (let rt = rt\<lparr>rt_client := (rt_client rt)\<lparr>c_conn := Some d'\<rparr>\<rparr> in
                if Kind msg = ServerHeartbeat then
                  (Continue,
                   rt\<lparr>rt_client := (rt_client rt)\<lparr>c_lastHeartbeat := time_Now E (rt_now rt)\<rparr>,
                      rt_now := Suc (rt_now rt)\<rparr>)
                else if Kind msg = ServerConnection then
                  (Continue, rt\<lparr>rt_go := rt_go rt @ [HandleConnection (ID msg)]\<rparr>)
                else if Kind msg = ServerHello \<or> Kind msg = ServerChallenge then
                  (Continue, rt\<lparr>rt_log := rt_log rt @ [LogUnexpectedControl (Kind msg)]\<rparr>)
                else if Kind msg = ServerError then
                  (Return (Some (ServerErrorText (ErrorText msg))), rt)
                else
                  (Continue, rt\<lparr>rt_log := rt_log rt @ [LogUnknownServerMessage msg]\<rparr>))))"

text \<open>What a framed connection can still read, as a number: it goes down with every
  frame that is received.\<close>

fun script_size :: "rd_event list \<Rightarrow> nat" where
  "script_size [] = 0"
| "script_size (RdData bs # evs) = Suc (length bs + script_size evs)"
| "script_size (RdErr e # evs) = Suc (script_size evs)"

definition input_size :: "Delimited \<Rightarrow> nat" where
  "input_size d = length (d_r d) + script_size (rx (d_conn d))"

definition runtime_size :: "runtime \<Rightarrow> nat" where
  "runtime_size rt = (case c_conn (rt_client rt) of None \<Rightarrow> 0 | Some d \<Rightarrow> input_size d)"

text \<open>Receiving a frame takes at least its zero byte from the input.\<close>

lemma dropWhile_tl_length:
  "x \<in> set xs \<Longrightarrow> length (dropWhile (\<lambda>b. b \<noteq> x) xs) - Suc 0 < length xs"
  by (induction xs) auto

lemma ReadBytes_size:
  "ReadBytes delim d = ((frame, None), d') \<Longrightarrow> input_size d' < input_size d"
proof (induction delim d rule: ReadBytes.induct)
  case (1 delim d)
  show ?case
  proof (cases "delim \<in> set (d_r d)")
    case True
    with 1(2) have "d' = d\<lparr>d_r := tl (dropWhile (\<lambda>b. b \<noteq> delim) (d_r d))\<rparr>"
      by (subst (asm) ReadBytes.simps) simp
    with True show ?thesis by (simp add: input_size_def dropWhile_tl_length)
  next
    case False
    obtain res c' where cr: "conn_Read (d_conn d) = (res, c')" by (cases "conn_Read (d_conn d)")
    show ?thesis
    proof (cases res)
      case (Inl e)
      with 1(2) False cr show ?thesis by (subst (asm) ReadBytes.simps) simp
    next
      case (Inr bs)
      let ?d' = "d\<lparr>d_conn := c', d_r := d_r d @ bs\<rparr>"
      from 1(2) False cr Inr have rb: "ReadBytes delim ?d' = ((frame, None), d')"
        by (subst (asm) ReadBytes.simps) simp
      have ih: "input_size d' < input_size ?d'"
        using 1(1) [OF False _ _ rb] cr Inr by simp
      have "input_size ?d' < input_size d"
        using cr Inr
        by (auto simp: conn_Read_def input_size_def split: if_splits list.splits rd_event.splits)
      with ih show ?thesis by simp
    qed
  qed
qed

lemma RecvFrame_size:
  assumes "RecvFrame timeout d = (Inr (Some frame), d')"
  shows "input_size d' < input_size d"
proof -
  let ?b = "if timeout then True else False"
  obtain e c where sd: "SetReadDeadline ?b (d_conn d) = (e, c)"
    by (cases "SetReadDeadline ?b (d_conn d)")
  have e: "e = None" using assms sd by (cases e; cases timeout) (auto simp: RecvFrame_def)
  have c: "rx c = rx (d_conn d)" using sd by (auto simp: SetReadDeadline_def split: if_splits)
  obtain fr er d1 where rb: "ReadBytes (CHR 0x00) (d\<lparr>d_conn := c\<rparr>) = ((fr, er), d1)"
    by (cases "ReadBytes (CHR 0x00) (d\<lparr>d_conn := c\<rparr>)") auto
  have rf: "RecvFrame timeout d =
      (case ((fr, er), d1) of
             ((frame, Some err), d') \<Rightarrow>
               if errors_Is err EOF then (Inr None, d')
               else if is_net_timeout err then (Inl (TimedOutWaiting err), d')
               else (Inl err, d')
           | ((frame, None), d') \<Rightarrow>
               if length frame = 0 then (Inl EmptyFrame, d')
               else (let frame' = TrimSuffix frame [CHR 0x00] in
                     if MaxFrameLength < length frame'
                     then (Inl (FrameTooLarge (length frame')), d')
                     else (Inr (Some frame'), d')))"
    using sd e rb by (cases timeout) (simp_all add: RecvFrame_def)
  have "er = None \<and> d1 = d'"
    using assms rf by (cases er) (auto simp: Let_def split: if_splits)
  with rb have "input_size d' < input_size (d\<lparr>d_conn := c\<rparr>)"
    using ReadBytes_size by blast
  with c show ?thesis by (simp add: input_size_def)
qed

lemma RecvServer_size:
  "RecvServer E timeout d = (Inr (Some msg), d') \<Longrightarrow> input_size d' < input_size d"
  by (auto simp: RecvServer_def RecvFrame_size split: prod.splits sum.splits option.splits)

lemma Listen_iter_size:
  "Listen_iter E rt = (Continue, rt') \<Longrightarrow> runtime_size rt' < runtime_size rt"
proof -
  assume a: "Listen_iter E rt = (Continue, rt')"
  then obtain d where d: "c_conn (rt_client rt) = Some d"
    by (cases "c_conn (rt_client rt)") (auto simp: Listen_iter_def)
  obtain res d' where rs: "RecvServer E False d = (res, d')" by (cases "RecvServer E False d")
  from a d rs obtain msg where m: "res = Inr (Some msg)"
    by (cases res) (auto simp: Listen_iter_def split: option.splits)
  have c: "c_conn (rt_client rt') = Some d'"
    using a d rs m by (auto simp: Listen_iter_def Let_def split: if_splits)
  from RecvServer_size rs m have "input_size d' < input_size d" by blast
  with c d show ?thesis by (simp add: runtime_size_def)
qed

text \<open>The loop of \<^verbatim>\<open>Listen\<close>: rounds until one returns.\<close>

function Listen_loop :: "env \<Rightarrow> runtime \<Rightarrow> error option \<times> runtime" where
  "Listen_loop E rt =
     (case Listen_iter E rt of
        (Return r, rt') \<Rightarrow> (r, rt')
      | (Continue, rt') \<Rightarrow> Listen_loop E rt')"
  by pat_completeness auto

termination Listen_loop
proof (relation "measure (\<lambda>(E, rt). runtime_size rt)", goal_cases)
  case 1
  show ?case by simp
next
  case (2 E rt x rt')
  then show ?case using Listen_iter_size [of E rt rt'] by simp
qed

declare Listen_loop.simps [simp del]

text \<open>\<^verbatim>\<open>Listen\<close>: the deferred store of \<open>false\<close> to \<open>connected\<close> runs when the loop
  has returned.\<close>

definition Listen :: "env \<Rightarrow> runtime \<Rightarrow> error option \<times> runtime" where
  "Listen E rt =
     (let rt = rt\<lparr>rt_go := rt_go rt @ [CloseWhenDone]\<rparr>;
          rt = rt\<lparr>rt_client := (rt_client rt)\<lparr>c_connected := True\<rparr>\<rparr>
      in case Listen_loop E rt of
           (r, rt') \<Rightarrow> (r, rt'\<lparr>rt_client := (rt_client rt')\<lparr>c_connected := False\<rparr>\<rparr>))"

text \<open>A number of calls of \<^verbatim>\<open>Close\<close> on a client, one after the other, with what
  each call returned; and the number of times the client's socket was closed.\<close>

fun Close_calls :: "nat \<Rightarrow> Client \<Rightarrow> error option list \<times> Client" where
  "Close_calls 0 c = ([], c)"
| "Close_calls (Suc n) c =
     (case Client_Close c of
        (err, c') \<Rightarrow> (case Close_calls n c' of (errs, c'') \<Rightarrow> (err # errs, c'')))"

definition socket_closes :: "Client \<Rightarrow> nat" where
  "socket_closes c = (case c_conn c of None \<Rightarrow> 0 | Some d \<Rightarrow> closes (d_conn d))"

subsection \<open>The relay between two sockets (proxy.go)\<close>

text \<open>
  \<^verbatim>\<open>proxy(a, b)\<close> starts two goroutines, \<^verbatim>\<open>io.Copy(a, b)\<close> and \<^verbatim>\<open>io.Copy(b, a)\<close>,
  waits for the first to end, closes both sockets and waits for the second. The three
  run interleaved: a schedule names who takes the next step. A copier is about to read
  from its source, or holds the bytes it read and is about to write them, or has ended
  with its error (\<^verbatim>\<open>io.Copy\<close> ends without an error at \<^verbatim>\<open>io.EOF\<close>). A copier that
  ends sends its error on the channel, which has room for both; the main goroutine
  takes nothing from an empty channel.
\<close>

datatype copier = Reading | Writing bytes | Done "error option"

text \<open>One step of \<^verbatim>\<open>io.Copy(dst, src)\<close>: the copier, the destination and the source
  after it.\<close>

definition io_Copy_step :: "copier \<Rightarrow> netconn \<Rightarrow> netconn \<Rightarrow> copier \<times> netconn \<times> netconn" where
  "io_Copy_step st dst src =
     (case st of
        Reading \<Rightarrow>
          (case conn_Read src of
             (Inr bs, src') \<Rightarrow> if bs \<noteq> [] then (Writing bs, dst, src') else (Reading, dst, src')
           | (Inl er, src') \<Rightarrow> (Done (if er \<noteq> EOF then Some er else None), dst, src'))
      | Writing bs \<Rightarrow>
          (case conn_Write bs dst of
             ((nw, Some ew), dst') \<Rightarrow> (Done (Some ew), dst', src)
           | ((nw, None), dst') \<Rightarrow>
               if length bs \<noteq> nw then (Done (Some ErrShortWrite), dst', src)
               else (Reading, dst', src))
      | Done r \<Rightarrow> (Done r, dst, src))"

datatype main_state =
    AwaitFirst
  | CloseA "error option"
  | CloseB "error option"
  | AwaitSecond "error option"
  | Returned "error option"

datatype actor = CopyToA | CopyToB | Main

record proxy_state =
  p_a :: netconn
  p_b :: netconn
  p_to_a :: copier
  p_to_b :: copier
  p_errCh :: "error option list"
  p_main :: main_state

definition sends :: "copier \<Rightarrow> copier \<Rightarrow> error option list" where
  "sends before after = (case (before, after) of
                           (Done r, st) \<Rightarrow> []
                         | (st, Done r) \<Rightarrow> [r]
                         | (st, st') \<Rightarrow> [])"

text \<open>What \<^verbatim>\<open>proxy\<close> returns from the two errors.\<close>

definition proxy_result :: "error option \<Rightarrow> error option \<Rightarrow> error option" where
  "proxy_result err1 err2 =
     (if err1 \<noteq> None \<and> err1 \<noteq> Some EOF then err1
      else if err2 \<noteq> None \<and> err2 \<noteq> Some EOF then err2
      else None)"

definition proxy_step :: "actor \<Rightarrow> proxy_state \<Rightarrow> proxy_state" where
  "proxy_step who ps =
     (case who of
        CopyToA \<Rightarrow>
          (case io_Copy_step (p_to_a ps) (p_a ps) (p_b ps) of
             (st, a, b) \<Rightarrow>
               ps\<lparr>p_a := a, p_b := b, p_to_a := st,
                  p_errCh := p_errCh ps @ sends (p_to_a ps) st\<rparr>)
      | CopyToB \<Rightarrow>
          (case io_Copy_step (p_to_b ps) (p_b ps) (p_a ps) of
             (st, b, a) \<Rightarrow>
               ps\<lparr>p_a := a, p_b := b, p_to_b := st,
                  p_errCh := p_errCh ps @ sends (p_to_b ps) st\<rparr>)
      | Main \<Rightarrow>
          (case p_main ps of
             AwaitFirst \<Rightarrow>
               (case p_errCh ps of
                  [] \<Rightarrow> ps
                | err1 # ch \<Rightarrow> ps\<lparr>p_errCh := ch, p_main := CloseA err1\<rparr>)
           | CloseA err1 \<Rightarrow> ps\<lparr>p_a := snd (conn_Close (p_a ps)), p_main := CloseB err1\<rparr>
           | CloseB err1 \<Rightarrow> ps\<lparr>p_b := snd (conn_Close (p_b ps)), p_main := AwaitSecond err1\<rparr>
           | AwaitSecond err1 \<Rightarrow>
               (case p_errCh ps of
                  [] \<Rightarrow> ps
                | err2 # ch \<Rightarrow> ps\<lparr>p_errCh := ch, p_main := Returned (proxy_result err1 err2)\<rparr>)
           | Returned r \<Rightarrow> ps))"

fun proxy_run :: "actor list \<Rightarrow> proxy_state \<Rightarrow> proxy_state" where
  "proxy_run [] ps = ps"
| "proxy_run (who # sched) ps = proxy_run sched (proxy_step who ps)"

text \<open>\<^verbatim>\<open>proxy\<close> under a schedule: what it returned, if it has returned when the schedule
  ends, and the two sockets.\<close>

definition proxy :: "actor list \<Rightarrow> netconn \<Rightarrow> netconn \<Rightarrow> error option option \<times> netconn \<times> netconn" where
  "proxy sched a b =
     (let ps = proxy_run sched
                 \<lparr>p_a = a, p_b = b, p_to_a = Reading, p_to_b = Reading,
                  p_errCh = [], p_main = AwaitFirst\<rparr>
      in (case p_main ps of Returned r \<Rightarrow> Some r | st \<Rightarrow> None, p_a ps, p_b ps))"

subsection \<open>A proxy session (client.go, lines 302 to 346)\<close>

text \<open>
  \<^verbatim>\<open>handleConnection\<close>, as the \<open>n\<close>-th and the next dial of the run and with the
  schedule of its relay. \<open>h_result\<close> is what it returned (\<open>None\<close> while the relay is
  still running), \<open>h_client\<close> the client, whose count of active proxies has gone up and,
  by the deferred call, down again, \<open>h_remote\<close> and \<open>h_local\<close> the two sockets it
  dialled, in their last state.
\<close>

record handled =
  h_result :: "error option option"
  h_client :: Client
  h_remote :: "netconn option"
  h_local :: "netconn option"

definition handleConnection :: "env \<Rightarrow> Client \<Rightarrow> uuid \<Rightarrow> nat \<Rightarrow> actor list \<Rightarrow> handled" where
  "handleConnection E c uid n sched =
     (let c = c\<lparr>c_activeProxies := c_activeProxies c + 1\<rparr>;
          deferred = c\<lparr>c_activeProxies := c_activeProxies c + (- 1)\<rparr>
      in case connectWithTimeout E (c_to c) ControlPort n of
           Inl err \<Rightarrow>
             \<lparr>h_result = Some (Some (ConnectToServerForProxy err)), h_client = deferred,
              h_remote = None, h_local = None\<rparr>
         | Inr remoteConn \<Rightarrow>
             (case (case c_auth c of
                      None \<Rightarrow> (None, NewDelimited remoteConn)
                    | Some a \<Rightarrow> ClientHandshake E a (NewDelimited remoteConn)) of
                (Some err, framed) \<Rightarrow>
                  \<lparr>h_result = Some (Some err), h_client = deferred,
                   h_remote = Some (d_conn (snd (Close framed))), h_local = None\<rparr>
              | (None, framed) \<Rightarrow>
                  (case SendJSON (json_Marshal E) (encodeAccept uid) framed of
                     (Some err, framed) \<Rightarrow>
                       \<lparr>h_result = Some (Some err), h_client = deferred,
                        h_remote = Some (d_conn (snd (Close framed))), h_local = None\<rparr>
                   | (None, framed) \<Rightarrow>
                       (case BufferedData
                               (framed\<lparr>d_conn := snd (SetDeadline False (d_conn framed))\<rparr>) of
                          (Inl err, framed) \<Rightarrow>
                            \<lparr>h_result = Some (Some err), h_client = deferred,
                             h_remote = Some (d_conn (snd (Close framed))), h_local = None\<rparr>
                        | (Inr buffered, framed) \<Rightarrow>
                            (case connectWithTimeout E (c_localHost c) (c_localPort c) (Suc n) of
                               Inl err \<Rightarrow>
                                 \<lparr>h_result = Some (Some (ConnectToLocalService err)),
                                  h_client = deferred,
                                  h_remote = Some (d_conn (snd (Close framed))),
                                  h_local = None\<rparr>
                             | Inr localConn \<Rightarrow>
                                 (case (if 0 < length buffered then conn_Write buffered localConn
                                        else ((0, None), localConn)) of
                                    ((nw, Some err), localConn) \<Rightarrow>
                                      \<lparr>h_result = Some (Some (WriteBufferedToLocal err)),
                                       h_client = deferred,
                                       h_remote = Some (d_conn (snd (Close framed))),
                                       h_local = Some (snd (conn_Close localConn))\<rparr>
                                  | ((nw, None), localConn) \<Rightarrow>
                                      (case proxy sched localConn (RawConn framed) of
                                         (r, a, b) \<Rightarrow>
                                           \<lparr>h_result = r, h_client = deferred,
                                            h_remote = Some b, h_local = Some a\<rparr>)))))))"

text \<open>
  For the proofs about the relay: what holds of the bytes on their way from \<open>b\<close> to \<open>a\<close>
  at every moment of \<^verbatim>\<open>proxy\<close>, \<open>a0\<close> being the socket \<open>a\<close> at the start and \<open>S\<close> all the
  bytes \<open>a\<close> can ever have been given: what \<open>a\<close> has taken so far, then what the
  copier holds, then what \<open>b\<close> is still to deliver, are \<open>S\<close>; once the copier has ended,
  \<open>a\<close> has taken an initial part of \<open>S\<close>.
\<close>

definition relay_inv :: "netconn \<Rightarrow> bytes \<Rightarrow> proxy_state \<Rightarrow> bool" where
  "relay_inv a0 S ps =
     (prefix (sent a0) (sent (p_a ps)) \<and>
      (case p_to_a ps of
         Reading \<Rightarrow> sent (p_a ps) @ pending (rx (p_b ps)) = S
       | Writing bs \<Rightarrow> sent (p_a ps) @ bs @ pending (rx (p_b ps)) = S
       | Done r \<Rightarrow> prefix (sent (p_a ps)) S))"

subsection \<open>Example inputs\<close>

text \<open>
  For the examples that follow the theorems: a scanner that knows a few JSON texts, a
  marshaller for port 0, strings and one UUID, sockets whose peer sends given chunks and
  closes, and a network: a relay that assigns port 9000, one that asks for
  authentication, one that refuses, one that sends a heartbeat first, one that
  challenges and then assigns port 9000, one that challenges a new socket and sends the
  first bytes of a connection in the same segment, a local service, and nothing else.
\<close>

definition example_uuid :: uuid where
  "example_uuid =
     [CHR 0x12, CHR 0x3e, CHR 0x45, CHR 0x67, CHR 0xe8, CHR 0x9b, CHR 0x12, CHR 0xd3,
      CHR 0xa4, CHR 0x56, CHR 0x42, CHR 0x66, CHR 0x14, CHR 0x17, CHR 0x40, CHR 0x00]"

definition example_scan :: "bytes \<Rightarrow> json option" where
  "example_scan data =
     (if data = ''\"Heartbeat\"'' then Some (JString ''Heartbeat'')
      else if data = ''\"Goodbye\"'' then Some (JString ''Goodbye'')
      else if data = ''{}'' then Some (JObject [])
      else if data = ''{\"Hello\":9000}'' then Some (JObject [(''Hello'', JNumber ''9000'')])
      else if data = ''{\"Hello\":1,\"Error\":\"x\"}''
        then Some (JObject [(''Hello'', JNumber ''1''), (''Error'', JString ''x'')])
      else if data = ''{\"Ping\":1}'' then Some (JObject [(''Ping'', JNumber ''1'')])
      else if data = ''{\"Error\":\"port in use\"}''
        then Some (JObject [(''Error'', JString ''port in use'')])
      else if data = ''{\"Challenge\":\"123e4567-e89b-12d3-a456-426614174000\"}''
        then Some (JObject [(''Challenge'', JString ''123e4567-e89b-12d3-a456-426614174000'')])
      else if data = ''{\"Connection\":\"123e4567-e89b-12d3-a456-426614174000\"}''
        then Some (JObject [(''Connection'', JString ''123e4567-e89b-12d3-a456-426614174000'')])
      else None)"

fun example_marshal :: "go_value \<Rightarrow> error + bytes" where
  "example_marshal (VMap [(k, VUint16 p)]) =
     (if p = 0 then Inr (''{\"'' @ k @ ''\":0}'') else Inl (MarshalError ''unsupported value''))"
| "example_marshal (VMap [(k, VString s)]) = Inr (''{\"'' @ k @ ''\":\"'' @ s @ ''\"}'')"
| "example_marshal (VMap [(k, VUUID u)]) =
     (if u = example_uuid
      then Inr (''{\"'' @ k @ ''\":\"123e4567-e89b-12d3-a456-426614174000\"}'')
      else Inl (MarshalError ''unsupported value''))"
| "example_marshal v = Inl (MarshalError ''unsupported value'')"

definition example_socket :: "bytes list \<Rightarrow> netconn" where
  "example_socket chunks =
     \<lparr>rx = map RdData chunks, tx = [], sent = [], closes = 0,
      rd_deadline = False, wr_deadline = False\<rparr>"

definition example_dial :: "string \<Rightarrow> 16 word \<Rightarrow> nat \<Rightarrow> error + netconn" where
  "example_dial host port n =
     (if host = ''bore.pub'' then Inr (example_socket [''{\"Hello\":9000}'' @ [CHR 0x00]])
      else if host = ''auth.example'' then
        Inr (example_socket
               [''{\"Challenge\":\"123e4567-e89b-12d3-a456-426614174000\"}'' @ [CHR 0x00]])
      else if host = ''busy.example'' then
        Inr (example_socket [''{\"Error\":\"port in use\"}'' @ [CHR 0x00]])
      else if host = ''odd.example'' then
        Inr (example_socket [''\"Heartbeat\"'' @ [CHR 0x00]])
      else if host = ''secure.example'' then
        Inr (example_socket
               [''{\"Challenge\":\"123e4567-e89b-12d3-a456-426614174000\"}'' @ [CHR 0x00],
                ''{\"Hello\":9000}'' @ [CHR 0x00]])
      else if host = ''relay.example'' then
        Inr (example_socket
               [''{\"Challenge\":\"123e4567-e89b-12d3-a456-426614174000\"}'' @ [CHR 0x00]
                  @ ''GET / '',
                ''HTTP/1.1''])
      else if host = ''localhost'' then Inr (example_socket [''200 OK''])
      else Inl (OpOther ''connection refused''))"

definition example_env :: env where
  "example_env =
     \<lparr>json_scan = example_scan,
      json_Marshal = example_marshal,
      uuid_Parse = (\<lambda>s. if s = ''123e4567-e89b-12d3-a456-426614174000''
                         then Some example_uuid else None),
      net_Dial = example_dial,
      time_Now = (\<lambda>n. 1700000000000000000 + of_nat n)\<rparr>"

definition example_client :: Client where
  "example_client =
     \<lparr>c_conn = Some (NewDelimited (example_socket [])),
      c_to = ''bore.pub'', c_localHost = ''localhost'', c_localPort = 8000,
      c_remotePort = 9000, c_auth = None, c_connected = True, c_activeProxies = 0,
      c_lastHeartbeat = 0, c_closeOnce = False\<rparr>"

definition example_auth_client :: Client where
  "example_auth_client =
     example_client\<lparr>c_to := ''relay.example'',
                    c_auth := Some (NewAuthenticator ''my-secret'')\<rparr>"

text \<open>A client on a control socket whose relay sends the chunks and closes, with nothing
  started or logged yet.\<close>

definition example_runtime :: "bytes list \<Rightarrow> runtime" where
  "example_runtime chunks =
     \<lparr>rt_client = example_client\<lparr>c_conn := Some (NewDelimited (example_socket chunks))\<rparr>,
      rt_go = [], rt_log = [], rt_now = 0\<rparr>"

section \<open>Properties\<close>

subsection \<open>Reading a frame\<close>

lemma conn_Read_open:
  "\<not> is_closed c \<Longrightarrow> conn_Read c =
     (case rx c of [] \<Rightarrow> (Inl EOF, c) | RdData bs # evs \<Rightarrow> (Inr bs, c\<lparr>rx := evs\<rparr>)
      | RdErr e # evs \<Rightarrow> (Inl e, c\<lparr>rx := evs\<rparr>))"
  by (simp add: conn_Read_def)

lemma ReadBytes_found:
  "\<not> is_closed (d_conn d) \<Longrightarrow> delim \<in> set (incoming d) \<Longrightarrow>
   fst (ReadBytes delim d) = (takeWhile (\<lambda>b. b \<noteq> delim) (incoming d) @ [delim], None)"
proof (induction delim d rule: ReadBytes.induct)
  case (1 delim d)
  show ?case
  proof (cases "delim \<in> set (d_r d)")
    case True
    then show ?thesis
      by (subst ReadBytes.simps) (simp add: incoming_def takeWhile_append1)
  next
    case False
    note nf = this
    show ?thesis
    proof (cases "rx (d_conn d)")
      case Nil
      with 1(3) nf show ?thesis by (simp add: incoming_def)
    next
      case (Cons ev evs)
      show ?thesis
      proof (cases ev)
        case (RdData bs)
        let ?d' = "d\<lparr>d_conn := (d_conn d)\<lparr>rx := evs\<rparr>, d_r := d_r d @ bs\<rparr>"
        have cr: "conn_Read (d_conn d) = (Inr bs, (d_conn d)\<lparr>rx := evs\<rparr>)"
          using 1(2) Cons RdData by (simp add: conn_Read_open)
        have inc: "incoming ?d' = incoming d"
          using Cons RdData by (simp add: incoming_def)
        have "fst (ReadBytes delim ?d') =
              (takeWhile (\<lambda>b. b \<noteq> delim) (incoming ?d') @ [delim], None)"
          using 1(1)[OF nf cr[symmetric] refl] 1(2) 1(3) inc by (simp add: is_closed_def)
        then show ?thesis
          using nf cr inc by (subst ReadBytes.simps) simp
      next
        case (RdErr e)
        with 1(3) nf Cons show ?thesis by (simp add: incoming_def)
      qed
    qed
  qed
qed

lemma ReadBytes_not_found:
  "\<not> is_closed (d_conn d) \<Longrightarrow> delim \<notin> set (incoming d) \<Longrightarrow>
   fst (ReadBytes delim d) = (incoming d, Some (ending (rx (d_conn d)))) \<and>
   d_r (snd (ReadBytes delim d)) = []"
proof (induction delim d rule: ReadBytes.induct)
  case (1 delim d)
  from 1(3) have nf: "delim \<notin> set (d_r d)" by (simp add: incoming_def)
  show ?case
  proof (cases "rx (d_conn d)")
    case Nil
    then have cr: "conn_Read (d_conn d) = (Inl EOF, d_conn d)"
      using 1(2) by (simp add: conn_Read_open)
    show ?thesis using nf cr Nil by (subst (1 2) ReadBytes.simps) (simp add: incoming_def)
  next
    case (Cons ev evs)
    show ?thesis
    proof (cases ev)
      case (RdData bs)
      let ?d' = "d\<lparr>d_conn := (d_conn d)\<lparr>rx := evs\<rparr>, d_r := d_r d @ bs\<rparr>"
      have cr: "conn_Read (d_conn d) = (Inr bs, (d_conn d)\<lparr>rx := evs\<rparr>)"
        using 1(2) Cons RdData by (simp add: conn_Read_open)
      have inc: "incoming ?d' = incoming d"
        using Cons RdData by (simp add: incoming_def)
      have "fst (ReadBytes delim ?d') = (incoming ?d', Some (ending (rx (d_conn ?d')))) \<and>
            d_r (snd (ReadBytes delim ?d')) = []"
        using 1(1)[OF nf cr[symmetric] refl] 1(2) 1(3) inc by (simp add: is_closed_def)
      then show ?thesis
        using nf cr inc Cons RdData by (subst (1 2) ReadBytes.simps) simp
    next
      case (RdErr e)
      then have cr: "conn_Read (d_conn d) = (Inl e, (d_conn d)\<lparr>rx := evs\<rparr>)"
        using 1(2) Cons by (simp add: conn_Read_open)
      show ?thesis using nf cr Cons RdErr by (subst (1 2) ReadBytes.simps) (simp add: incoming_def)
    qed
  qed
qed

lemma SetReadDeadline_open:
  "\<not> is_closed c \<Longrightarrow> SetReadDeadline b c = (None, c\<lparr>rd_deadline := b\<rparr>)"
  by (simp add: SetReadDeadline_def)

lemma incoming_deadline [simp]:
  "incoming (d\<lparr>d_conn := (d_conn d)\<lparr>rd_deadline := b\<rparr>\<rparr>) = incoming d"
  by (simp add: incoming_def)

lemma TrimSuffix_snoc [simp]: "TrimSuffix (xs @ [z]) [z] = xs"
  by (simp add: TrimSuffix_def)

lemma RecvFrame_found:
  assumes "\<not> is_closed (d_conn d)" and "incoming d = payload @ CHR 0x00 # rest"
    and "CHR 0x00 \<notin> set payload"
  shows "fst (RecvFrame timeout d) =
           (if MaxFrameLength < length payload then Inl (FrameTooLarge (length payload))
            else Inr (Some payload))"
proof -
  let ?d = "d\<lparr>d_conn := (d_conn d)\<lparr>rd_deadline := timeout\<rparr>\<rparr>"
  have tw: "takeWhile (\<lambda>b. b \<noteq> CHR 0x00) (payload @ CHR 0x00 # rest) = payload"
    using assms(3) by (induction payload) auto
  have "fst (ReadBytes (CHR 0x00) ?d) = (payload @ [CHR 0x00], None)"
    using ReadBytes_found [of ?d "CHR 0x00"] assms tw by (simp add: is_closed_def)
  then obtain d' where rb: "ReadBytes (CHR 0x00) ?d = ((payload @ [CHR 0x00], None), d')"
    by (cases "ReadBytes (CHR 0x00) ?d") auto
  show ?thesis
    using assms(1) rb by (cases timeout) (simp_all add: RecvFrame_def SetReadDeadline_open)
qed

lemma RecvFrame_not_found:
  assumes "\<not> is_closed (d_conn d)" and "CHR 0x00 \<notin> set (incoming d)"
  shows "fst (RecvFrame timeout d) =
           (if errors_Is (ending (rx (d_conn d))) EOF then Inr None
            else if is_net_timeout (ending (rx (d_conn d)))
                 then Inl (TimedOutWaiting (ending (rx (d_conn d))))
                 else Inl (ending (rx (d_conn d))))
         \<and> d_r (snd (RecvFrame timeout d)) = []"
proof -
  let ?d = "d\<lparr>d_conn := (d_conn d)\<lparr>rd_deadline := timeout\<rparr>\<rparr>"
  have "fst (ReadBytes (CHR 0x00) ?d) = (incoming d, Some (ending (rx (d_conn d))))
        \<and> d_r (snd (ReadBytes (CHR 0x00) ?d)) = []"
    using ReadBytes_not_found [of ?d "CHR 0x00"] assms by (simp add: is_closed_def)
  then obtain d' where rb: "ReadBytes (CHR 0x00) ?d = ((incoming d, Some (ending (rx (d_conn d)))), d')"
    and dr: "d_r d' = []"
    by (cases "ReadBytes (CHR 0x00) ?d") auto
  show ?thesis
    using assms(1) rb dr by (cases timeout) (simp_all add: RecvFrame_def SetReadDeadline_open)
qed

text \<open>
  Claim C2. The maximum frame length is 256 bytes. When the JSON encoding of a value is
  longer, \<^verbatim>\<open>SendJSON\<close> returns the frame-too-large error and leaves the framed connection
  as it was: nothing is buffered and no byte reaches the socket. When the bytes before
  the first zero byte of an open connection's input are more than 256, \<^verbatim>\<open>RecvFrame\<close>
  returns the frame-too-large error.
\<close>

theorem frame_too_large_rejected:
  "(marshal v = Inr payload \<and> MaxFrameLength < length payload \<longrightarrow>
      SendJSON marshal v d = (Some (FrameTooLarge (length payload)), d))
   \<and> (\<not> is_closed (d_conn d) \<and> incoming d = payload @ CHR 0x00 # rest
        \<and> CHR 0x00 \<notin> set payload \<and> MaxFrameLength < length payload \<longrightarrow>
      fst (RecvFrame timeout d) = Inl (FrameTooLarge (length payload)))
   \<and> MaxFrameLength = 256"
proof (intro conjI impI)
  assume "marshal v = Inr payload \<and> MaxFrameLength < length payload"
  then show "SendJSON marshal v d = (Some (FrameTooLarge (length payload)), d)"
    by (simp add: SendJSON_def)
next
  assume h: "\<not> is_closed (d_conn d) \<and> incoming d = payload @ CHR 0x00 # rest
        \<and> CHR 0x00 \<notin> set payload \<and> MaxFrameLength < length payload"
  then show "fst (RecvFrame timeout d) = Inl (FrameTooLarge (length payload))"
    using RecvFrame_found [of d payload rest timeout] by simp
next
  show "MaxFrameLength = 256" by (simp add: MaxFrameLength_def)
qed

text \<open>A payload of 257 bytes, sent and received.\<close>

theorem frame_too_large_rejected_witness:
  "SendJSON (\<lambda>u::unit. Inr (replicate 257 CHR ''a'')) ()
     (NewDelimited \<lparr>rx = [RdData (replicate 257 CHR ''a'' @ [CHR 0x00])], tx = [], sent = [],
                    closes = 0, rd_deadline = False, wr_deadline = False\<rparr>)
   = (Some (FrameTooLarge 257),
      NewDelimited \<lparr>rx = [RdData (replicate 257 CHR ''a'' @ [CHR 0x00])], tx = [], sent = [],
                    closes = 0, rd_deadline = False, wr_deadline = False\<rparr>)
   \<and> fst (RecvFrame True
       (NewDelimited \<lparr>rx = [RdData (replicate 257 CHR ''a'' @ [CHR 0x00])], tx = [], sent = [],
                    closes = 0, rd_deadline = False, wr_deadline = False\<rparr>))
     = Inl (FrameTooLarge 257)"
  using frame_too_large_rejected
    [of "\<lambda>u::unit. Inr (replicate 257 CHR ''a'')" "()" "replicate 257 CHR ''a''"
        "NewDelimited \<lparr>rx = [RdData (replicate 257 CHR ''a'' @ [CHR 0x00])], tx = [], sent = [],
                    closes = 0, rd_deadline = False, wr_deadline = False\<rparr>" "[]" True]
  by (simp add: MaxFrameLength_def NewDelimited_def incoming_def is_closed_def)

text \<open>
  Claim C3. On an open connection whose peer closes before any byte arrives,
  \<^verbatim>\<open>RecvFrame\<close> returns absent and no error. When the input holds no zero byte and the
  read that runs out of bytes meets an expired deadline, \<^verbatim>\<open>RecvFrame\<close> returns the
  timed-out error, and not absent without an error.
\<close>

theorem recv_eof_absent_timeout_error:
  "(\<not> is_closed (d_conn d) \<and> incoming d = [] \<and> ending (rx (d_conn d)) = EOF \<longrightarrow>
      fst (RecvFrame timeout d) = Inr None)
   \<and> (\<not> is_closed (d_conn d) \<and> CHR 0x00 \<notin> set (incoming d)
        \<and> ending (rx (d_conn d)) = OpTimeout \<longrightarrow>
      fst (RecvFrame timeout d) = Inl (TimedOutWaiting OpTimeout)
      \<and> fst (RecvFrame timeout d) \<noteq> Inr None)"
proof (intro conjI impI)
  assume "\<not> is_closed (d_conn d) \<and> incoming d = [] \<and> ending (rx (d_conn d)) = EOF"
  then show "fst (RecvFrame timeout d) = Inr None"
    using RecvFrame_not_found [of d timeout] by simp
next
  assume h: "\<not> is_closed (d_conn d) \<and> CHR 0x00 \<notin> set (incoming d)
        \<and> ending (rx (d_conn d)) = OpTimeout"
  then show "fst (RecvFrame timeout d) = Inl (TimedOutWaiting OpTimeout)"
    using RecvFrame_not_found [of d timeout] by simp
  then show "fst (RecvFrame timeout d) \<noteq> Inr None" by simp
qed

text \<open>A peer that sends nothing and closes; a peer that stops in the middle of a frame.\<close>

theorem recv_eof_absent_timeout_error_witness:
  "fst (RecvFrame True
     (NewDelimited \<lparr>rx = [], tx = [], sent = [], closes = 0,
                    rd_deadline = False, wr_deadline = False\<rparr>)) = Inr None
   \<and> fst (RecvFrame True
     (NewDelimited \<lparr>rx = [RdData ''{\"Hel'', RdErr OpTimeout], tx = [], sent = [], closes = 0,
                    rd_deadline = False, wr_deadline = False\<rparr>))
     = Inl (TimedOutWaiting OpTimeout)"
  using recv_eof_absent_timeout_error
      [of "NewDelimited \<lparr>rx = [], tx = [], sent = [], closes = 0,
                    rd_deadline = False, wr_deadline = False\<rparr>" True]
    recv_eof_absent_timeout_error
      [of "NewDelimited \<lparr>rx = [RdData ''{\"Hel'', RdErr OpTimeout], tx = [], sent = [], closes = 0,
                    rd_deadline = False, wr_deadline = False\<rparr>" True]
  by (simp add: NewDelimited_def incoming_def is_closed_def)

text \<open>
  Claim C4 says that a frame with no payload, a zero byte alone, is refused with the
  empty-frame error. \<^verbatim>\<open>RecvFrame\<close> tests \<^verbatim>\<open>len(frame) == 0\<close> on what \<^verbatim>\<open>ReadBytes\<close>
  returned, which still ends with the zero byte, so the test never holds: the frame is
  returned as present, with an empty payload and no error.
\<close>

theorem recv_zero_length_frame_is_present:
  "fst (RecvFrame True
     (NewDelimited \<lparr>rx = [RdData [CHR 0x00]], tx = [], sent = [], closes = 0,
                    rd_deadline = False, wr_deadline = False\<rparr>)) = Inr (Some [])
   \<and> fst (RecvFrame True
     (NewDelimited \<lparr>rx = [RdData [CHR 0x00]], tx = [], sent = [], closes = 0,
                    rd_deadline = False, wr_deadline = False\<rparr>)) \<noteq> Inl EmptyFrame"
  by (simp add: RecvFrame_def NewDelimited_def SetReadDeadline_def is_closed_def
      ReadBytes.simps conn_Read_def MaxFrameLength_def TrimSuffix_def)

text \<open>The same for every open connection whose input starts with a zero byte.\<close>

lemma recv_zero_length_frame_general:
  "\<not> is_closed (d_conn d) \<Longrightarrow> incoming d = CHR 0x00 # rest \<Longrightarrow>
   fst (RecvFrame timeout d) = Inr (Some [])"
  using RecvFrame_found [of d "[]" rest timeout] by (simp add: MaxFrameLength_def)

text \<open>
  Claim C10. When the peer closes after some bytes of a frame and before its zero byte,
  \<^verbatim>\<open>RecvFrame\<close> returns absent and no error and keeps none of the bytes, the result it
  gives on a connection \<open>d0\<close> whose peer closed before sending anything.
\<close>

theorem recv_truncated_frame_as_clean_eof:
  "\<not> is_closed (d_conn d) \<and> incoming d \<noteq> [] \<and> CHR 0x00 \<notin> set (incoming d)
     \<and> ending (rx (d_conn d)) = EOF
     \<and> \<not> is_closed (d_conn d0) \<and> incoming d0 = [] \<and> ending (rx (d_conn d0)) = EOF \<longrightarrow>
   fst (RecvFrame timeout d) = Inr None
   \<and> d_r (snd (RecvFrame timeout d)) = []
   \<and> fst (RecvFrame timeout d) = fst (RecvFrame timeout d0)"
  using RecvFrame_not_found [of d timeout] RecvFrame_not_found [of d0 timeout] by simp

text \<open>A peer that closes in the middle of the heartbeat message.\<close>

theorem recv_truncated_frame_as_clean_eof_witness:
  "fst (RecvFrame False
     (NewDelimited \<lparr>rx = [RdData ''\"Heart'', RdData ''bea''], tx = [], sent = [], closes = 0,
                    rd_deadline = False, wr_deadline = False\<rparr>)) = Inr None
   \<and> d_r (snd (RecvFrame False
     (NewDelimited \<lparr>rx = [RdData ''\"Heart'', RdData ''bea''], tx = [], sent = [], closes = 0,
                    rd_deadline = False, wr_deadline = False\<rparr>))) = []
   \<and> fst (RecvFrame False
     (NewDelimited \<lparr>rx = [RdData ''\"Heart'', RdData ''bea''], tx = [], sent = [], closes = 0,
                    rd_deadline = False, wr_deadline = False\<rparr>))
     = fst (RecvFrame False
     (NewDelimited \<lparr>rx = [], tx = [], sent = [], closes = 0,
                    rd_deadline = False, wr_deadline = False\<rparr>))"
  using recv_truncated_frame_as_clean_eof
      [of "NewDelimited \<lparr>rx = [RdData ''\"Heart'', RdData ''bea''], tx = [], sent = [], closes = 0,
                    rd_deadline = False, wr_deadline = False\<rparr>"
          "NewDelimited \<lparr>rx = [], tx = [], sent = [], closes = 0,
                    rd_deadline = False, wr_deadline = False\<rparr>" False]
  by (auto simp add: NewDelimited_def incoming_def is_closed_def)

subsection \<open>Decoding a server message\<close>

lemma fold_update_keys:
  "fst ` set (fold (\<lambda>(k, v) obj. AList.update k v obj) members acc)
     = fst ` set members \<union> fst ` set acc"
proof (induction members arbitrary: acc)
  case Nil
  show ?case by simp
next
  case (Cons kv members)
  obtain k v where kv: "kv = (k, v)" by (cases kv)
  have "fst ` set (AList.update k v acc) = insert k (fst ` set acc)"
    by (simp add: AList.dom_update)
  then show ?case using Cons.IH [of "AList.update k v acc"] kv by auto
qed

lemma fold_update_distinct:
  "distinct (map fst acc) \<Longrightarrow>
   distinct (map fst (fold (\<lambda>(k, v) obj. AList.update k v obj) members acc))"
proof (induction members arbitrary: acc)
  case Nil
  then show ?case by simp
next
  case (Cons kv members)
  obtain k v where kv: "kv = (k, v)" by (cases kv)
  show ?case using Cons.IH [of "AList.update k v acc"] Cons.prems kv
    by (simp add: AList.distinct_update)
qed

lemma Unmarshal_map_length:
  "Unmarshal_map (JObject members) = Some obj \<Longrightarrow> length obj = card (fst ` set members)"
proof -
  assume a: "Unmarshal_map (JObject members) = Some obj"
  then have o: "obj = fold (\<lambda>(k, v) obj. AList.update k v obj) members []" by simp
  have d: "distinct (map fst obj)" unfolding o by (rule fold_update_distinct) simp
  have k: "fst ` set obj = fst ` set members" unfolding o by (simp add: fold_update_keys)
  have "card (fst ` set obj) = length (map fst obj)"
    using d distinct_card [of "map fst obj"] by simp
  with k show ?thesis by simp
qed

lemma Unmarshal_map_single:
  assumes "Unmarshal_map (JObject members) = Some obj" and "fst ` set members = {k}"
  shows "\<exists>v. obj = [(k, v)]"
proof -
  from assms(1) have o: "obj = fold (\<lambda>(k, v) obj. AList.update k v obj) members []" by simp
  have len: "length obj = 1" using Unmarshal_map_length [OF assms(1)] assms(2) by simp
  have k: "fst ` set obj = {k}" unfolding o using assms(2) by (simp add: fold_update_keys)
  from len obtain kv where "obj = [kv]" by (cases obj) auto
  with k show ?thesis by (cases kv) auto
qed

lemma decode_single:
  assumes "json_scan E data = Some (JObject ms)"
    and "fold (\<lambda>(k, v) obj. AList.update k v obj) ms [] = [(k, v)]"
  shows "decodeServerMessage E data =
     (if k = ''Hello'' then
        (case Unmarshal_uint16 v of
           None \<Rightarrow> Inl InvalidHelloMessage
         | Some port \<Rightarrow> Inr (ServerMessage_zero\<lparr>Kind := ServerHello, Port := port\<rparr>))
      else if k = ''Challenge'' then
        (case Unmarshal_string v of
           None \<Rightarrow> Inl InvalidChallengeMessage
         | Some raw \<Rightarrow>
             (case uuid_Parse E raw of
                None \<Rightarrow> Inl InvalidChallengeUUID
              | Some uid \<Rightarrow> Inr (ServerMessage_zero\<lparr>Kind := ServerChallenge, ID := uid\<rparr>)))
      else if k = ''Connection'' then
        (case Unmarshal_string v of
           None \<Rightarrow> Inl InvalidConnectionMessage
         | Some raw \<Rightarrow>
             (case uuid_Parse E raw of
                None \<Rightarrow> Inl InvalidConnectionUUID
              | Some uid \<Rightarrow> Inr (ServerMessage_zero\<lparr>Kind := ServerConnection, ID := uid\<rparr>)))
      else if k = ''Error'' then
        (case Unmarshal_string v of
           None \<Rightarrow> Inl InvalidErrorMessage
         | Some msg \<Rightarrow> Inr (ServerMessage_zero\<lparr>Kind := ServerError, ErrorText := msg\<rparr>))
      else Inl (UnknownMessageKind k))"
  using assms by (simp add: decodeServerMessage_def)

lemma decode_single_kind:
  assumes "json_scan E data = Some (JObject ms)"
    and "fold (\<lambda>(k, v) obj. AList.update k v obj) ms [] = [(k, v)]"
    and "decodeServerMessage E data = Inr m"
  shows "(k = ''Hello'' \<and> Kind m = ServerHello) \<or> (k = ''Challenge'' \<and> Kind m = ServerChallenge)
       \<or> (k = ''Connection'' \<and> Kind m = ServerConnection) \<or> (k = ''Error'' \<and> Kind m = ServerError)"
proof -
  note d = decode_single [OF assms(1,2)]
  consider "k = ''Hello''" | "k = ''Challenge''" | "k = ''Connection''" | "k = ''Error''"
    | "k \<noteq> ''Hello'' \<and> k \<noteq> ''Challenge'' \<and> k \<noteq> ''Connection'' \<and> k \<noteq> ''Error''"
    by blast
  then show ?thesis
  proof cases
    case 1
    with d assms(3) show ?thesis by (cases "Unmarshal_uint16 v") auto
  next
    case 2
    with d assms(3) show ?thesis
      by (cases "Unmarshal_string v") (auto split: option.splits)
  next
    case 3
    with d assms(3) show ?thesis
      by (cases "Unmarshal_string v") (auto split: option.splits)
  next
    case 4
    with d assms(3) show ?thesis by (cases "Unmarshal_string v") auto
  next
    case 5
    with d assms(3) show ?thesis by simp
  qed
qed

text \<open>
  Claim C5. \<^verbatim>\<open>decodeServerMessage\<close> reads the input as a bare string first: the string
  \<^verbatim>\<open>Heartbeat\<close> is the heartbeat message, any other string is the unexpected-unit
  error. An object whose number of keys is not one is refused (expected single-field
  message), and so is an object whose one key is none of \<^verbatim>\<open>Hello\<close>, \<^verbatim>\<open>Challenge\<close>,
  \<^verbatim>\<open>Connection\<close>, \<^verbatim>\<open>Error\<close> (unknown message kind). Whenever a message is returned,
  the input was the heartbeat string or an object with exactly one key, one of the
  four, and the kind of the message is the kind of that key. The keys of an object are
  counted as the map counts them: a key that is repeated in the text is one key.
\<close>

theorem decodeServerMessage_shapes:
  "(json_scan E data = Some (JString s) \<longrightarrow>
      decodeServerMessage E data =
        (if s = ''Heartbeat'' then Inr (ServerMessage_zero\<lparr>Kind := ServerHeartbeat\<rparr>)
         else Inl (UnexpectedUnitMessage s)))
   \<and> (json_scan E data = Some (JObject members) \<and> card (fst ` set members) \<noteq> 1 \<longrightarrow>
      decodeServerMessage E data = Inl (ExpectedSingleField (card (fst ` set members))))
   \<and> (json_scan E data = Some (JObject members) \<and> fst ` set members = {k}
        \<and> k \<notin> {''Hello'', ''Challenge'', ''Connection'', ''Error''} \<longrightarrow>
      decodeServerMessage E data = Inl (UnknownMessageKind k))
   \<and> (decodeServerMessage E data = Inr m \<longrightarrow>
        (json_scan E data = Some (JString ''Heartbeat'') \<and> Kind m = ServerHeartbeat)
        \<or> (\<exists>ms key. json_scan E data = Some (JObject ms) \<and> fst ` set ms = {key}
              \<and> (key, Kind m) \<in> {(''Hello'', ServerHello), (''Challenge'', ServerChallenge),
                                  (''Connection'', ServerConnection), (''Error'', ServerError)}))"
proof (intro conjI impI)
  assume "json_scan E data = Some (JString s)"
  then show "decodeServerMessage E data =
        (if s = ''Heartbeat'' then Inr (ServerMessage_zero\<lparr>Kind := ServerHeartbeat\<rparr>)
         else Inl (UnexpectedUnitMessage s))"
    by (simp add: decodeServerMessage_def)
next
  assume a: "json_scan E data = Some (JObject members) \<and> card (fst ` set members) \<noteq> 1"
  obtain obj where o: "Unmarshal_map (JObject members) = Some obj" by simp
  have "length obj = card (fst ` set members)" by (rule Unmarshal_map_length [OF o])
  with a o show "decodeServerMessage E data = Inl (ExpectedSingleField (card (fst ` set members)))"
    by (simp add: decodeServerMessage_def)
next
  assume a: "json_scan E data = Some (JObject members) \<and> fst ` set members = {k}
        \<and> k \<notin> {''Hello'', ''Challenge'', ''Connection'', ''Error''}"
  obtain obj where o: "Unmarshal_map (JObject members) = Some obj" by simp
  from a obtain v where v: "obj = [(k, v)]" using Unmarshal_map_single [OF o] by blast
  with o have f: "fold (\<lambda>(k, v) obj. AList.update k v obj) members [] = [(k, v)]" by simp
  from a show "decodeServerMessage E data = Inl (UnknownMessageKind k)"
    using decode_single [OF _ f, of E data] by simp
next
  assume r: "decodeServerMessage E data = Inr m"
  show "(json_scan E data = Some (JString ''Heartbeat'') \<and> Kind m = ServerHeartbeat)
        \<or> (\<exists>ms key. json_scan E data = Some (JObject ms) \<and> fst ` set ms = {key}
              \<and> (key, Kind m) \<in> {(''Hello'', ServerHello), (''Challenge'', ServerChallenge),
                                  (''Connection'', ServerConnection), (''Error'', ServerError)})"
  proof (cases "json_scan E data")
    case None
    with r show ?thesis by (simp add: decodeServerMessage_def)
  next
    case (Some j)
    show ?thesis
    proof (cases j)
      case JNull
      with r Some show ?thesis by (simp add: decodeServerMessage_def)
    next
      case (JBool b)
      with r Some show ?thesis by (simp add: decodeServerMessage_def)
    next
      case (JNumber lit)
      with r Some show ?thesis by (simp add: decodeServerMessage_def)
    next
      case (JString s)
      with r Some show ?thesis
        by (cases "s = ''Heartbeat''") (auto simp add: decodeServerMessage_def)
    next
      case (JArray js)
      with r Some show ?thesis by (simp add: decodeServerMessage_def)
    next
      case (JObject ms)
      obtain obj where o: "Unmarshal_map (JObject ms) = Some obj" by simp
      have keys: "fst ` set obj = fst ` set ms"
        using o fold_update_keys [of ms "[]"] by simp
      have l1: "length obj = 1"
      proof (rule ccontr)
        assume "length obj \<noteq> 1"
        with r Some JObject o show False by (simp add: decodeServerMessage_def)
      qed
      then obtain key v where kv: "obj = [(key, v)]" by (cases obj) auto
      with keys have k1: "fst ` set ms = {key}" by simp
      from o kv have f: "fold (\<lambda>(k, v) obj. AList.update k v obj) ms [] = [(key, v)]" by simp
      have js: "json_scan E data = Some (JObject ms)" using Some JObject by simp
      have mem: "(key, Kind m) \<in> {(''Hello'', ServerHello), (''Challenge'', ServerChallenge),
                                  (''Connection'', ServerConnection), (''Error'', ServerError)}"
        using decode_single_kind [OF js f r] by auto
      show ?thesis
        by (intro disjI2 exI [of _ ms] exI [of _ key] conjI) (rule js, rule k1, rule mem)
    qed
  qed
qed

text \<open>The heartbeat, another string, objects with no key, two keys and an unknown key,
  and a greeting.\<close>

theorem decodeServerMessage_shapes_witness:
  "decodeServerMessage example_env ''\"Heartbeat\"'' = Inr (ServerMessage_zero\<lparr>Kind := ServerHeartbeat\<rparr>)
   \<and> decodeServerMessage example_env ''\"Goodbye\"'' = Inl (UnexpectedUnitMessage ''Goodbye'')
   \<and> decodeServerMessage example_env ''{}'' = Inl (ExpectedSingleField 0)
   \<and> decodeServerMessage example_env ''{\"Hello\":1,\"Error\":\"x\"}'' = Inl (ExpectedSingleField 2)
   \<and> decodeServerMessage example_env ''{\"Ping\":1}'' = Inl (UnknownMessageKind ''Ping'')
   \<and> Kind (ServerMessage_zero\<lparr>Kind := ServerHello, Port := 9000\<rparr>) = ServerHello"
proof -
  have s1: "json_scan example_env ''\"Heartbeat\"'' = Some (JString ''Heartbeat'')"
    and s2: "json_scan example_env ''\"Goodbye\"'' = Some (JString ''Goodbye'')"
    and s3: "json_scan example_env ''{}'' = Some (JObject [])"
    and s4: "json_scan example_env ''{\"Hello\":1,\"Error\":\"x\"}''
              = Some (JObject [(''Hello'', JNumber ''1''), (''Error'', JString ''x'')])"
    and s5: "json_scan example_env ''{\"Ping\":1}'' = Some (JObject [(''Ping'', JNumber ''1'')])"
    and s6: "json_scan example_env ''{\"Hello\":9000}'' = Some (JObject [(''Hello'', JNumber ''9000'')])"
    by (simp_all add: example_env_def example_scan_def)
  have c2: "card {''Hello'', ''Error''} = 2" by simp
  have h6: "decodeServerMessage example_env ''{\"Hello\":9000}''
       = Inr (ServerMessage_zero\<lparr>Kind := ServerHello, Port := 9000\<rparr>)"
    using s6 by (simp add: decodeServerMessage_def ParseUint_def is_digit_def)
  have w1: "decodeServerMessage example_env ''\"Heartbeat\"'' = Inr (ServerMessage_zero\<lparr>Kind := ServerHeartbeat\<rparr>)"
    using decodeServerMessage_shapes [of example_env "''\"Heartbeat\"''" "''Heartbeat''" "[]" "[]"] s1
    by simp
  have w2: "decodeServerMessage example_env ''\"Goodbye\"'' = Inl (UnexpectedUnitMessage ''Goodbye'')"
    using decodeServerMessage_shapes [of example_env "''\"Goodbye\"''" "''Goodbye''" "[]" "[]"] s2
    by simp
  have w3: "decodeServerMessage example_env ''{}'' = Inl (ExpectedSingleField 0)"
    using decodeServerMessage_shapes [of example_env "''{}''" "[]" "[]" "[]"] s3
    by simp
  have w4: "decodeServerMessage example_env ''{\"Hello\":1,\"Error\":\"x\"}'' = Inl (ExpectedSingleField 2)"
    using decodeServerMessage_shapes [of example_env "''{\"Hello\":1,\"Error\":\"x\"}''" "[]"
         "[(''Hello'', JNumber ''1''), (''Error'', JString ''x'')]" "[]"] s4 c2
    by simp
  have w5: "decodeServerMessage example_env ''{\"Ping\":1}'' = Inl (UnknownMessageKind ''Ping'')"
    using decodeServerMessage_shapes [of example_env "''{\"Ping\":1}''" "[]"
         "[(''Ping'', JNumber ''1'')]" "''Ping''"] s5
    by simp
  have w6: "Kind (ServerMessage_zero\<lparr>Kind := ServerHello, Port := 9000\<rparr>) = ServerHello"
    using decodeServerMessage_shapes [of example_env "''{\"Hello\":9000}''" "[]" "[]" "[]"
         "ServerMessage_zero\<lparr>Kind := ServerHello, Port := 9000\<rparr>"] h6 s6
    by (auto simp: ServerHello_def ServerHeartbeat_def)
  from w1 w2 w3 w4 w5 w6 show ?thesis by blast
qed

subsection \<open>The authentication tag\<close>

lemma length_sha256_round [simp]: "length (sha256_round kw s) = length s"
  by (induction kw s rule: sha256_round.induct) (simp_all add: Let_def)

lemma length_fold_round [simp]: "length (fold sha256_round kws s) = length s"
  by (induction kws arbitrary: s) simp_all

lemma length_sha256_compress [simp]: "length (sha256_compress block h) = length h"
  by (simp add: sha256_compress_def)

lemma length_fold_compress [simp]: "length (fold sha256_compress bs h) = length h"
  by (induction bs arbitrary: h) simp_all

lemma length_be_bytes [simp]: "length (be_bytes n x) = n"
  by (simp add: be_bytes_def)

lemma length_concat_be_bytes: "length (concat (map (be_bytes 4) ws)) = 4 * length ws"
  by (induction ws) simp_all

lemma length_sha256_Sum256 [simp]: "length (sha256_Sum256 msg) = 32"
  by (simp add: sha256_Sum256_def length_concat_be_bytes sha256_init_def)

lemma length_EncodeToString: "length (EncodeToString src) = 2 * length src"
  by (induction src) (simp_all add: EncodeToString_def)

lemma hex_digit_in_table: "k < 16 \<Longrightarrow> hextable ! k \<in> set hextable"
  by (rule nth_mem) (simp add: hextable_def)

lemma of_char_div_16: "(of_char b :: nat) div 16 < 16"
proof -
  have "(of_char b :: nat) < 256" by simp
  then show ?thesis by arith
qed

lemma set_EncodeToString: "set (EncodeToString src) \<subseteq> set hextable"
proof (induction src)
  case Nil
  show ?case by (simp add: EncodeToString_def)
next
  case (Cons b src)
  have "hextable ! (of_char b div 16) \<in> set hextable"
    by (rule hex_digit_in_table) (rule of_char_div_16)
  moreover have "hextable ! (of_char b mod 16) \<in> set hextable"
    by (rule hex_digit_in_table) simp
  ultimately show ?case using Cons by (simp add: EncodeToString_def)
qed

lemma hmac_is_HMAC:
  "hmac_Sum [] (hmac_Write msg (hmac_New k)) = HMAC_SHA256 k msg"
  by (simp add: hmac_Sum_def hmac_Write_def hmac_New_def HMAC_SHA256_def Let_def
      sha256_BlockSize_def)

text \<open>
  Claim C6. For every secret and every challenge, the answer of an authenticator made
  from the secret is the hexadecimal encoding of HMAC-SHA256 of the bytes of the
  challenge under the key SHA-256 of the secret: a function of the secret and the
  challenge alone, so the same for every call and for every authenticator made from
  that secret. It has 64 characters, all of them digits or lower-case letters from
  \<open>a\<close> to \<open>f\<close>.
\<close>

theorem Answer_is_hex_hmac_sha256:
  "Answer (NewAuthenticator secret) challenge = spec_tag secret challenge
   \<and> Answer (NewAuthenticator secret) challenge
       = EncodeToString (HMAC_SHA256 (sha256_Sum256 secret) challenge)
   \<and> length (Answer (NewAuthenticator secret) challenge) = 64
   \<and> set (Answer (NewAuthenticator secret) challenge) \<subseteq> set ''0123456789abcdef''"
proof -
  have a: "Answer (NewAuthenticator secret) challenge
       = EncodeToString (HMAC_SHA256 (sha256_Sum256 secret) challenge)"
    by (simp add: Answer_def NewAuthenticator_def Let_def hmac_is_HMAC)
  have l: "length (HMAC_SHA256 (sha256_Sum256 secret) challenge) = 32"
    by (simp add: HMAC_SHA256_def Let_def)
  have s: "set (Answer (NewAuthenticator secret) challenge) \<subseteq> set ''0123456789abcdef''"
    using set_EncodeToString [of "HMAC_SHA256 (sha256_Sum256 secret) challenge"] a
    by (simp add: hextable_def)
  from a l s show ?thesis by (simp add: spec_tag_def length_EncodeToString)
qed

lemma length_Answer: "length (Answer a challenge) = 64"
  by (simp add: Answer_def Let_def hmac_Sum_def length_EncodeToString)

text \<open>
  An example, computed in the logic: the secret \<^verbatim>\<open>my-secret\<close> and the challenge
  \<^verbatim>\<open>123e4567-e89b-12d3-a456-426614174000\<close>. First the key, then the two hashes of
  HMAC, on the pads of the key.
\<close>

lemma tv_key: "sha256_Sum256 ''my-secret'' = [
      CHR 0x18, CHR 0x6e, CHR 0xf7, CHR 0x6e, CHR 0x9d, CHR 0x6a, CHR 0x72, CHR 0x3e,
      CHR 0xcb, CHR 0x57, CHR 0x0d, CHR 0x4d, CHR 0x9c, CHR 0x28, CHR 0x74, CHR 0x87,
      CHR 0xd0, CHR 0x01, CHR 0xe5, CHR 0xd3, CHR 0x5f, CHR 0x7e, CHR 0xd4, CHR 0xa3,
      CHR 0x13, CHR 0x35, CHR 0x0a, CHR 0x40, CHR 0x79, CHR 0x50, CHR 0x31, CHR 0x8e]"
  by code_simp

lemma tv_inner: "sha256_Sum256 [
      CHR 0x2e, CHR 0x58, CHR 0xc1, CHR 0x58, CHR 0xab, CHR 0x5c, CHR 0x44, CHR 0x08,
      CHR 0xfd, CHR 0x61, CHR 0x3b, CHR 0x7b, CHR 0xaa, CHR 0x1e, CHR 0x42, CHR 0xb1,
      CHR 0xe6, CHR 0x37, CHR 0xd3, CHR 0xe5, CHR 0x69, CHR 0x48, CHR 0xe2, CHR 0x95,
      CHR 0x25, CHR 0x03, CHR 0x3c, CHR 0x76, CHR 0x4f, CHR 0x66, CHR 0x07, CHR 0xb8,
      CHR 0x36, CHR 0x36, CHR 0x36, CHR 0x36, CHR 0x36, CHR 0x36, CHR 0x36, CHR 0x36,
      CHR 0x36, CHR 0x36, CHR 0x36, CHR 0x36, CHR 0x36, CHR 0x36, CHR 0x36, CHR 0x36,
      CHR 0x36, CHR 0x36, CHR 0x36, CHR 0x36, CHR 0x36, CHR 0x36, CHR 0x36, CHR 0x36,
      CHR 0x36, CHR 0x36, CHR 0x36, CHR 0x36, CHR 0x36, CHR 0x36, CHR 0x36, CHR 0x36,
      CHR 0x12, CHR 0x3e, CHR 0x45, CHR 0x67, CHR 0xe8, CHR 0x9b, CHR 0x12, CHR 0xd3,
      CHR 0xa4, CHR 0x56, CHR 0x42, CHR 0x66, CHR 0x14, CHR 0x17, CHR 0x40, CHR 0x00] = [
      CHR 0x9f, CHR 0x7a, CHR 0xbd, CHR 0x69, CHR 0xab, CHR 0xd1, CHR 0x1f, CHR 0x40,
      CHR 0xac, CHR 0x16, CHR 0xbc, CHR 0xc5, CHR 0x69, CHR 0x5e, CHR 0x5a, CHR 0x70,
      CHR 0x5d, CHR 0x9f, CHR 0xc9, CHR 0xfa, CHR 0x9e, CHR 0xd4, CHR 0x49, CHR 0x75,
      CHR 0x93, CHR 0x15, CHR 0xeb, CHR 0x97, CHR 0x3f, CHR 0xf4, CHR 0xaf, CHR 0x31]"
  by code_simp

lemma tv_outer: "sha256_Sum256 [
      CHR 0x44, CHR 0x32, CHR 0xab, CHR 0x32, CHR 0xc1, CHR 0x36, CHR 0x2e, CHR 0x62,
      CHR 0x97, CHR 0x0b, CHR 0x51, CHR 0x11, CHR 0xc0, CHR 0x74, CHR 0x28, CHR 0xdb,
      CHR 0x8c, CHR 0x5d, CHR 0xb9, CHR 0x8f, CHR 0x03, CHR 0x22, CHR 0x88, CHR 0xff,
      CHR 0x4f, CHR 0x69, CHR 0x56, CHR 0x1c, CHR 0x25, CHR 0x0c, CHR 0x6d, CHR 0xd2,
      CHR 0x5c, CHR 0x5c, CHR 0x5c, CHR 0x5c, CHR 0x5c, CHR 0x5c, CHR 0x5c, CHR 0x5c,
      CHR 0x5c, CHR 0x5c, CHR 0x5c, CHR 0x5c, CHR 0x5c, CHR 0x5c, CHR 0x5c, CHR 0x5c,
      CHR 0x5c, CHR 0x5c, CHR 0x5c, CHR 0x5c, CHR 0x5c, CHR 0x5c, CHR 0x5c, CHR 0x5c,
      CHR 0x5c, CHR 0x5c, CHR 0x5c, CHR 0x5c, CHR 0x5c, CHR 0x5c, CHR 0x5c, CHR 0x5c,
      CHR 0x9f, CHR 0x7a, CHR 0xbd, CHR 0x69, CHR 0xab, CHR 0xd1, CHR 0x1f, CHR 0x40,
      CHR 0xac, CHR 0x16, CHR 0xbc, CHR 0xc5, CHR 0x69, CHR 0x5e, CHR 0x5a, CHR 0x70,
      CHR 0x5d, CHR 0x9f, CHR 0xc9, CHR 0xfa, CHR 0x9e, CHR 0xd4, CHR 0x49, CHR 0x75,
      CHR 0x93, CHR 0x15, CHR 0xeb, CHR 0x97, CHR 0x3f, CHR 0xf4, CHR 0xaf, CHR 0x31] = [
      CHR 0xe8, CHR 0x0d, CHR 0x86, CHR 0x58, CHR 0x2d, CHR 0xef, CHR 0xc5, CHR 0xcc,
      CHR 0xae, CHR 0xef, CHR 0xd5, CHR 0x4d, CHR 0xd1, CHR 0x2f, CHR 0xc5, CHR 0x9e,
      CHR 0xd0, CHR 0x89, CHR 0x7b, CHR 0x0f, CHR 0x39, CHR 0x94, CHR 0x61, CHR 0x88,
      CHR 0xa2, CHR 0xad, CHR 0xc2, CHR 0x2e, CHR 0xd1, CHR 0x0f, CHR 0x53, CHR 0xcb]"
  by code_simp

lemma tv_pads:
  "hmac_New [
      CHR 0x18, CHR 0x6e, CHR 0xf7, CHR 0x6e, CHR 0x9d, CHR 0x6a, CHR 0x72, CHR 0x3e,
      CHR 0xcb, CHR 0x57, CHR 0x0d, CHR 0x4d, CHR 0x9c, CHR 0x28, CHR 0x74, CHR 0x87,
      CHR 0xd0, CHR 0x01, CHR 0xe5, CHR 0xd3, CHR 0x5f, CHR 0x7e, CHR 0xd4, CHR 0xa3,
      CHR 0x13, CHR 0x35, CHR 0x0a, CHR 0x40, CHR 0x79, CHR 0x50, CHR 0x31, CHR 0x8e] =
     \<lparr>opad = [
      CHR 0x44, CHR 0x32, CHR 0xab, CHR 0x32, CHR 0xc1, CHR 0x36, CHR 0x2e, CHR 0x62,
      CHR 0x97, CHR 0x0b, CHR 0x51, CHR 0x11, CHR 0xc0, CHR 0x74, CHR 0x28, CHR 0xdb,
      CHR 0x8c, CHR 0x5d, CHR 0xb9, CHR 0x8f, CHR 0x03, CHR 0x22, CHR 0x88, CHR 0xff,
      CHR 0x4f, CHR 0x69, CHR 0x56, CHR 0x1c, CHR 0x25, CHR 0x0c, CHR 0x6d, CHR 0xd2,
      CHR 0x5c, CHR 0x5c, CHR 0x5c, CHR 0x5c, CHR 0x5c, CHR 0x5c, CHR 0x5c, CHR 0x5c,
      CHR 0x5c, CHR 0x5c, CHR 0x5c, CHR 0x5c, CHR 0x5c, CHR 0x5c, CHR 0x5c, CHR 0x5c,
      CHR 0x5c, CHR 0x5c, CHR 0x5c, CHR 0x5c, CHR 0x5c, CHR 0x5c, CHR 0x5c, CHR 0x5c,
      CHR 0x5c, CHR 0x5c, CHR 0x5c, CHR 0x5c, CHR 0x5c, CHR 0x5c, CHR 0x5c, CHR 0x5c],
      ipad = [
      CHR 0x2e, CHR 0x58, CHR 0xc1, CHR 0x58, CHR 0xab, CHR 0x5c, CHR 0x44, CHR 0x08,
      CHR 0xfd, CHR 0x61, CHR 0x3b, CHR 0x7b, CHR 0xaa, CHR 0x1e, CHR 0x42, CHR 0xb1,
      CHR 0xe6, CHR 0x37, CHR 0xd3, CHR 0xe5, CHR 0x69, CHR 0x48, CHR 0xe2, CHR 0x95,
      CHR 0x25, CHR 0x03, CHR 0x3c, CHR 0x76, CHR 0x4f, CHR 0x66, CHR 0x07, CHR 0xb8,
      CHR 0x36, CHR 0x36, CHR 0x36, CHR 0x36, CHR 0x36, CHR 0x36, CHR 0x36, CHR 0x36,
      CHR 0x36, CHR 0x36, CHR 0x36, CHR 0x36, CHR 0x36, CHR 0x36, CHR 0x36, CHR 0x36,
      CHR 0x36, CHR 0x36, CHR 0x36, CHR 0x36, CHR 0x36, CHR 0x36, CHR 0x36, CHR 0x36,
      CHR 0x36, CHR 0x36, CHR 0x36, CHR 0x36, CHR 0x36, CHR 0x36, CHR 0x36, CHR 0x36],
      inner = [
      CHR 0x2e, CHR 0x58, CHR 0xc1, CHR 0x58, CHR 0xab, CHR 0x5c, CHR 0x44, CHR 0x08,
      CHR 0xfd, CHR 0x61, CHR 0x3b, CHR 0x7b, CHR 0xaa, CHR 0x1e, CHR 0x42, CHR 0xb1,
      CHR 0xe6, CHR 0x37, CHR 0xd3, CHR 0xe5, CHR 0x69, CHR 0x48, CHR 0xe2, CHR 0x95,
      CHR 0x25, CHR 0x03, CHR 0x3c, CHR 0x76, CHR 0x4f, CHR 0x66, CHR 0x07, CHR 0xb8,
      CHR 0x36, CHR 0x36, CHR 0x36, CHR 0x36, CHR 0x36, CHR 0x36, CHR 0x36, CHR 0x36,
      CHR 0x36, CHR 0x36, CHR 0x36, CHR 0x36, CHR 0x36, CHR 0x36, CHR 0x36, CHR 0x36,
      CHR 0x36, CHR 0x36, CHR 0x36, CHR 0x36, CHR 0x36, CHR 0x36, CHR 0x36, CHR 0x36,
      CHR 0x36, CHR 0x36, CHR 0x36, CHR 0x36, CHR 0x36, CHR 0x36, CHR 0x36, CHR 0x36]\<rparr>"
  by code_simp

lemma tv_hex: "EncodeToString [
      CHR 0xe8, CHR 0x0d, CHR 0x86, CHR 0x58, CHR 0x2d, CHR 0xef, CHR 0xc5, CHR 0xcc,
      CHR 0xae, CHR 0xef, CHR 0xd5, CHR 0x4d, CHR 0xd1, CHR 0x2f, CHR 0xc5, CHR 0x9e,
      CHR 0xd0, CHR 0x89, CHR 0x7b, CHR 0x0f, CHR 0x39, CHR 0x94, CHR 0x61, CHR 0x88,
      CHR 0xa2, CHR 0xad, CHR 0xc2, CHR 0x2e, CHR 0xd1, CHR 0x0f, CHR 0x53, CHR 0xcb] = ''e80d86582defc5ccaeefd54dd12fc59ed0897b0f39946188a2adc22ed10f53cb''"
  by code_simp

lemma Answer_example:
  "Answer (NewAuthenticator ''my-secret'') example_uuid = ''e80d86582defc5ccaeefd54dd12fc59ed0897b0f39946188a2adc22ed10f53cb''"
proof -
  have "Answer (NewAuthenticator ''my-secret'') example_uuid
          = EncodeToString (hmac_Sum [] (hmac_Write example_uuid
              (hmac_New (sha256_Sum256 ''my-secret''))))"
    by (simp add: Answer_def NewAuthenticator_def Let_def)
  also have "\<dots> = EncodeToString (sha256_Sum256 ([
      CHR 0x44, CHR 0x32, CHR 0xab, CHR 0x32, CHR 0xc1, CHR 0x36, CHR 0x2e, CHR 0x62,
      CHR 0x97, CHR 0x0b, CHR 0x51, CHR 0x11, CHR 0xc0, CHR 0x74, CHR 0x28, CHR 0xdb,
      CHR 0x8c, CHR 0x5d, CHR 0xb9, CHR 0x8f, CHR 0x03, CHR 0x22, CHR 0x88, CHR 0xff,
      CHR 0x4f, CHR 0x69, CHR 0x56, CHR 0x1c, CHR 0x25, CHR 0x0c, CHR 0x6d, CHR 0xd2,
      CHR 0x5c, CHR 0x5c, CHR 0x5c, CHR 0x5c, CHR 0x5c, CHR 0x5c, CHR 0x5c, CHR 0x5c,
      CHR 0x5c, CHR 0x5c, CHR 0x5c, CHR 0x5c, CHR 0x5c, CHR 0x5c, CHR 0x5c, CHR 0x5c,
      CHR 0x5c, CHR 0x5c, CHR 0x5c, CHR 0x5c, CHR 0x5c, CHR 0x5c, CHR 0x5c, CHR 0x5c,
      CHR 0x5c, CHR 0x5c, CHR 0x5c, CHR 0x5c, CHR 0x5c, CHR 0x5c, CHR 0x5c, CHR 0x5c] @ sha256_Sum256 ([
      CHR 0x2e, CHR 0x58, CHR 0xc1, CHR 0x58, CHR 0xab, CHR 0x5c, CHR 0x44, CHR 0x08,
      CHR 0xfd, CHR 0x61, CHR 0x3b, CHR 0x7b, CHR 0xaa, CHR 0x1e, CHR 0x42, CHR 0xb1,
      CHR 0xe6, CHR 0x37, CHR 0xd3, CHR 0xe5, CHR 0x69, CHR 0x48, CHR 0xe2, CHR 0x95,
      CHR 0x25, CHR 0x03, CHR 0x3c, CHR 0x76, CHR 0x4f, CHR 0x66, CHR 0x07, CHR 0xb8,
      CHR 0x36, CHR 0x36, CHR 0x36, CHR 0x36, CHR 0x36, CHR 0x36, CHR 0x36, CHR 0x36,
      CHR 0x36, CHR 0x36, CHR 0x36, CHR 0x36, CHR 0x36, CHR 0x36, CHR 0x36, CHR 0x36,
      CHR 0x36, CHR 0x36, CHR 0x36, CHR 0x36, CHR 0x36, CHR 0x36, CHR 0x36, CHR 0x36,
      CHR 0x36, CHR 0x36, CHR 0x36, CHR 0x36, CHR 0x36, CHR 0x36, CHR 0x36, CHR 0x36] @ example_uuid)))"
    unfolding tv_key tv_pads by (simp add: hmac_Sum_def hmac_Write_def)
  also have "\<dots> = EncodeToString (sha256_Sum256 ([
      CHR 0x44, CHR 0x32, CHR 0xab, CHR 0x32, CHR 0xc1, CHR 0x36, CHR 0x2e, CHR 0x62,
      CHR 0x97, CHR 0x0b, CHR 0x51, CHR 0x11, CHR 0xc0, CHR 0x74, CHR 0x28, CHR 0xdb,
      CHR 0x8c, CHR 0x5d, CHR 0xb9, CHR 0x8f, CHR 0x03, CHR 0x22, CHR 0x88, CHR 0xff,
      CHR 0x4f, CHR 0x69, CHR 0x56, CHR 0x1c, CHR 0x25, CHR 0x0c, CHR 0x6d, CHR 0xd2,
      CHR 0x5c, CHR 0x5c, CHR 0x5c, CHR 0x5c, CHR 0x5c, CHR 0x5c, CHR 0x5c, CHR 0x5c,
      CHR 0x5c, CHR 0x5c, CHR 0x5c, CHR 0x5c, CHR 0x5c, CHR 0x5c, CHR 0x5c, CHR 0x5c,
      CHR 0x5c, CHR 0x5c, CHR 0x5c, CHR 0x5c, CHR 0x5c, CHR 0x5c, CHR 0x5c, CHR 0x5c,
      CHR 0x5c, CHR 0x5c, CHR 0x5c, CHR 0x5c, CHR 0x5c, CHR 0x5c, CHR 0x5c, CHR 0x5c] @ [
      CHR 0x9f, CHR 0x7a, CHR 0xbd, CHR 0x69, CHR 0xab, CHR 0xd1, CHR 0x1f, CHR 0x40,
      CHR 0xac, CHR 0x16, CHR 0xbc, CHR 0xc5, CHR 0x69, CHR 0x5e, CHR 0x5a, CHR 0x70,
      CHR 0x5d, CHR 0x9f, CHR 0xc9, CHR 0xfa, CHR 0x9e, CHR 0xd4, CHR 0x49, CHR 0x75,
      CHR 0x93, CHR 0x15, CHR 0xeb, CHR 0x97, CHR 0x3f, CHR 0xf4, CHR 0xaf, CHR 0x31]))"
    using tv_inner by (simp add: example_uuid_def)
  also have "\<dots> = ''e80d86582defc5ccaeefd54dd12fc59ed0897b0f39946188a2adc22ed10f53cb''"
    using tv_outer tv_hex by simp
  finally show ?thesis .
qed

subsection \<open>Closing the client\<close>

lemma Client_Close_done:
  "c_closeOnce c \<Longrightarrow> Client_Close c = (None, c)"
  by (simp add: Client_Close_def)

lemma Close_calls_done:
  "c_closeOnce c \<Longrightarrow> Close_calls n c = (replicate n None, c)"
  by (induction n) (simp_all add: Client_Close_done)

lemma Client_Close_first:
  "\<not> c_closeOnce c \<Longrightarrow> c_conn c = Some d \<Longrightarrow>
   Client_Close c =
     (fst (conn_Close (d_conn d)),
      c\<lparr>c_connected := False,
        c_conn := Some (d\<lparr>d_conn := (d_conn d)\<lparr>closes := Suc (closes (d_conn d))\<rparr>\<rparr>),
        c_closeOnce := True\<rparr>)"
  by (simp add: Client_Close_def Close_def conn_Close_def)

lemma Client_Close_closes:
  "socket_closes (snd (Client_Close c)) \<le> Suc (socket_closes c)
   \<and> (c_closeOnce c \<longrightarrow> socket_closes (snd (Client_Close c)) = socket_closes c)
   \<and> c_closeOnce (snd (Client_Close c))"
  by (cases "c_conn c")
     (auto simp: Client_Close_def Close_def conn_Close_def socket_closes_def Let_def)

lemma Close_calls_at_most_once:
  "socket_closes (snd (Close_calls n c)) \<le> Suc (socket_closes c)"
proof (cases n)
  case 0
  then show ?thesis by simp
next
  case (Suc m)
  obtain err c' where cc: "Client_Close c = (err, c')" by (cases "Client_Close c")
  have d: "c_closeOnce c'" using Client_Close_closes [of c] cc by simp
  have "Close_calls n c = (err # replicate m None, c')"
    using Suc cc Close_calls_done [OF d, of m] by simp
  then show ?thesis using Client_Close_closes [of c] cc by simp
qed

text \<open>
  Claim C9. However many times \<^verbatim>\<open>Close\<close> is called on a client, its socket is closed
  at most once more. On a client that holds a socket and has not been closed, one call
  or more close the socket exactly once and leave \<open>connected\<close> false; the first call
  returns what closing the socket returned and every later call returns no error. On a
  client that has been closed, every call returns no error and changes nothing.
\<close>

theorem Close_idempotent:
  "socket_closes (snd (Close_calls n c)) \<le> Suc (socket_closes c)
   \<and> (0 < n \<and> \<not> c_closeOnce c \<and> c_conn c = Some d \<longrightarrow>
        socket_closes (snd (Close_calls n c)) = Suc (socket_closes c)
        \<and> \<not> Connected (snd (Close_calls n c))
        \<and> fst (Close_calls n c) = fst (conn_Close (d_conn d)) # replicate (n - 1) None)
   \<and> (c_closeOnce c \<longrightarrow> Close_calls n c = (replicate n None, c))"
proof (intro conjI impI)
  show "socket_closes (snd (Close_calls n c)) \<le> Suc (socket_closes c)"
    by (rule Close_calls_at_most_once)
next
  assume a: "0 < n \<and> \<not> c_closeOnce c \<and> c_conn c = Some d"
  then obtain m where n: "n = Suc m" by (cases n) auto
  let ?c' = "c\<lparr>c_connected := False,
        c_conn := Some (d\<lparr>d_conn := (d_conn d)\<lparr>closes := Suc (closes (d_conn d))\<rparr>\<rparr>),
        c_closeOnce := True\<rparr>"
  have cc: "Client_Close c = (fst (conn_Close (d_conn d)), ?c')"
    using a by (simp add: Client_Close_first)
  have r: "Close_calls n c = (fst (conn_Close (d_conn d)) # replicate m None, ?c')"
    using n cc Close_calls_done [of ?c' m] by simp
  show "socket_closes (snd (Close_calls n c)) = Suc (socket_closes c)"
    using r a by (simp add: socket_closes_def)
  show "\<not> Connected (snd (Close_calls n c))"
    using r by (simp add: Connected_def)
  show "fst (Close_calls n c) = fst (conn_Close (d_conn d)) # replicate (n - 1) None"
    using r n by simp
next
  assume "c_closeOnce c"
  then show "Close_calls n c = (replicate n None, c)" by (rule Close_calls_done)
qed

text \<open>Three calls on a fresh client, then two more.\<close>

theorem Close_idempotent_witness:
  "socket_closes (snd (Close_calls 3 example_client)) = 1
   \<and> \<not> Connected (snd (Close_calls 3 example_client))
   \<and> fst (Close_calls 3 example_client) = [None, None, None]
   \<and> Close_calls 2 (snd (Close_calls 3 example_client))
       = ([None, None], snd (Close_calls 3 example_client))"
proof -
  let ?d = "NewDelimited (example_socket [])"
  have h: "0 < (3::nat) \<and> \<not> c_closeOnce example_client \<and> c_conn example_client = Some ?d"
    by (simp add: example_client_def)
  have sc: "socket_closes example_client = 0"
    by (simp add: example_client_def socket_closes_def NewDelimited_def example_socket_def)
  have cl: "fst (conn_Close (d_conn ?d)) = None"
    by (simp add: conn_Close_def NewDelimited_def is_closed_def example_socket_def)
  have w: "socket_closes (snd (Close_calls 3 example_client)) = 1
        \<and> \<not> Connected (snd (Close_calls 3 example_client))
        \<and> fst (Close_calls 3 example_client) = [None, None, None]"
    using Close_idempotent [of 3 example_client ?d] h sc cl
    by (simp add: numeral_3_eq_3)
  have d: "c_closeOnce (snd (Close_calls 3 example_client))"
    by (simp add: numeral_3_eq_3 example_client_def Client_Close_def Close_def conn_Close_def
        NewDelimited_def is_closed_def example_socket_def)
  have "Close_calls 2 (snd (Close_calls 3 example_client))
       = (replicate 2 None, snd (Close_calls 3 example_client))"
    using Close_idempotent [of 2 "snd (Close_calls 3 example_client)" ?d] d by blast
  with w show ?thesis by (simp add: numeral_2_eq_2)
qed

subsection \<open>Constructing the client\<close>

lemma kinds_distinct:
  "ServerHeartbeat \<noteq> ServerConnection" "ServerHeartbeat \<noteq> ServerHello"
  "ServerHeartbeat \<noteq> ServerChallenge" "ServerHeartbeat \<noteq> ServerError"
  "ServerConnection \<noteq> ServerHello" "ServerConnection \<noteq> ServerChallenge"
  "ServerConnection \<noteq> ServerError" "ServerHello \<noteq> ServerChallenge"
  "ServerHello \<noteq> ServerError" "ServerChallenge \<noteq> ServerError"
  by (simp_all add: ServerHeartbeat_def ServerConnection_def ServerHello_def
      ServerChallenge_def ServerError_def)

lemma conn_Close_closed [simp]: "is_closed (snd (conn_Close c))"
  by (simp add: conn_Close_def is_closed_def)

lemma NewClient_failure_closes:
  assumes "NewClient E localHost localPort to desiredPort secret = (Inl err, sock, lg)"
  shows "(sock = None \<and> connectWithTimeout E to ControlPort 0 = Inl err)
         \<or> (\<exists>c. sock = Some c \<and> is_closed c)"
proof (cases "connectWithTimeout E to ControlPort 0")
  case (Inl e)
  with assms show ?thesis by (simp add: NewClient_def)
next
  case (Inr conn)
  let ?auth = "if secret \<noteq> [] then Some (NewAuthenticator secret) else None"
  obtain e0 d0 where hs: "(case ?auth of None \<Rightarrow> (None, NewDelimited conn)
                          | Some a \<Rightarrow> ClientHandshake E a (NewDelimited conn)) = (e0, d0)"
    by (cases "(case ?auth of None \<Rightarrow> (None, NewDelimited conn)
                          | Some a \<Rightarrow> ClientHandshake E a (NewDelimited conn))")
  show ?thesis
  proof (cases e0)
    case (Some e)
    with assms Inr hs show ?thesis by (auto simp add: NewClient_def Let_def)
  next
    case None
    obtain e1 d1 where sj: "SendJSON (json_Marshal E) (encodeHello desiredPort) d0 = (e1, d1)"
      by (cases "SendJSON (json_Marshal E) (encodeHello desiredPort) d0")
    show ?thesis
    proof (cases e1)
      case (Some e)
      with assms Inr hs None sj show ?thesis by (auto simp add: NewClient_def Let_def)
    next
      case None1: None
      obtain r2 d2 where rs: "RecvServer E True d1 = (r2, d2)" by (cases "RecvServer E True d1")
      show ?thesis
      proof (cases r2)
        case (Inl e)
        with assms Inr hs None sj None1 rs show ?thesis by (auto simp add: NewClient_def Let_def)
      next
        case Inr2: (Inr mo)
        show ?thesis
        proof (cases mo)
          case None2: None
          with assms Inr hs None sj None1 rs Inr2 show ?thesis by (auto simp add: NewClient_def Let_def)
        next
          case (Some msg)
          with assms Inr hs None sj None1 rs Inr2 show ?thesis
            by (auto simp add: NewClient_def Let_def split: if_splits)
        qed
      qed
    qed
  qed
qed

lemma NewClient_response:
  assumes "connectWithTimeout E to ControlPort 0 = Inr conn"
    and "(secret = [] \<and> d0 = NewDelimited conn)
         \<or> (secret \<noteq> [] \<and> ClientHandshake E (NewAuthenticator secret) (NewDelimited conn) = (None, d0))"
    and "SendJSON (json_Marshal E) (encodeHello desiredPort) d0 = (None, d1)"
    and "RecvServer E True d1 = (Inr (Some msg), d2)"
  shows "NewClient E localHost localPort to desiredPort secret =
     (if Kind msg = ServerHello then
        (Inr \<lparr>c_conn = Some d2, c_to = to, c_localHost = localHost,
              c_localPort = localPort, c_remotePort = Port msg,
              c_auth = (if secret \<noteq> [] then Some (NewAuthenticator secret) else None),
              c_connected = True, c_activeProxies = 0,
              c_lastHeartbeat = 0, c_closeOnce = False\<rparr>,
         Some (d_conn d2), [LogConnected (Port msg)])
      else if Kind msg = ServerError then
        (Inl (ServerErrorText (ErrorText msg)), Some (snd (conn_Close (d_conn d2))), [])
      else if Kind msg = ServerChallenge then
        (Inl AuthenticationRequired, Some (snd (conn_Close (d_conn d2))), [])
      else
        (Inl (UnexpectedInitialMessage (Kind msg)), Some (snd (conn_Close (d_conn d2))), []))"
  using assms by (auto simp: NewClient_def Let_def)

lemma SendJSON_fresh:
  assumes "marshal v = Inr payload" and "length payload \<le> MaxFrameLength"
    and "\<not> is_closed (d_conn d)" and "tx (d_conn d) = []" and "d_w d = []" and "d_werr d = None"
  shows "SendJSON marshal v d =
           (None, d\<lparr>d_conn := (d_conn d)\<lparr>wr_deadline := True,
                                          sent := sent (d_conn d) @ payload @ [CHR 0x00]\<rparr>\<rparr>)"
proof -
  let ?d0 = "d\<lparr>d_conn := (d_conn d)\<lparr>wr_deadline := True\<rparr>\<rparr>"
  have w: "bufio_Write payload ?d0 = (None, ?d0\<lparr>d_w := payload\<rparr>)"
    using assms by (subst bufio_Write.simps) (simp add: Available_def defaultBufSize_def MaxFrameLength_def)
  have b: "WriteByte (CHR 0x00) (?d0\<lparr>d_w := payload\<rparr>) = (None, ?d0\<lparr>d_w := payload @ [CHR 0x00]\<rparr>)"
    using assms by (simp add: WriteByte_def Available_def defaultBufSize_def MaxFrameLength_def)
  have f: "Flush (?d0\<lparr>d_w := payload @ [CHR 0x00]\<rparr>) =
           (None, d\<lparr>d_conn := (d_conn d)\<lparr>wr_deadline := True,
                                          sent := sent (d_conn d) @ payload @ [CHR 0x00]\<rparr>\<rparr>)"
    using assms by (simp add: Flush_def conn_Write_def is_closed_def)
  show ?thesis
    using assms w b f by (simp add: SendJSON_def SetWriteDeadline_def)
qed

lemma RecvFrame_state:
  assumes "\<not> is_closed (d_conn d)" and "d_r d = []" and "rx (d_conn d) = RdData (payload @ CHR 0x00 # rest) # evs"
    and "CHR 0x00 \<notin> set payload" and "length payload \<le> MaxFrameLength"
  shows "RecvFrame timeout d =
           (Inr (Some payload), d\<lparr>d_conn := (d_conn d)\<lparr>rd_deadline := timeout, rx := evs\<rparr>, d_r := rest\<rparr>)"
proof -
  let ?c = "(d_conn d)\<lparr>rd_deadline := timeout\<rparr>"
  have tw: "takeWhile (\<lambda>b. b \<noteq> CHR 0x00) (payload @ CHR 0x00 # rest) = payload"
    using assms(4) by (induction payload) auto
  have dw: "dropWhile (\<lambda>b. b \<noteq> CHR 0x00) (payload @ CHR 0x00 # rest) = CHR 0x00 # rest"
    using assms(4) by (induction payload) auto
  have "ReadBytes (CHR 0x00) (d\<lparr>d_conn := ?c\<rparr>) =
          ((payload @ [CHR 0x00], None), d\<lparr>d_conn := ?c\<lparr>rx := evs\<rparr>, d_r := rest\<rparr>)"
    using assms tw dw
    by (subst ReadBytes.simps, simp add: conn_Read_def is_closed_def, subst ReadBytes.simps) simp
  then show ?thesis
    using assms by (cases timeout) (simp_all add: RecvFrame_def SetReadDeadline_def)
qed

text \<open>
  Claim C1. When the dial, the handshake (run when a secret is given) and the sending of
  the greeting have succeeded and the relay's first message is \<open>msg\<close>: a \<^verbatim>\<open>Hello\<close>
  gives a client whose remote port is the port of the message, connected, on the open
  socket; an \<^verbatim>\<open>Error\<close> fails with the server error carrying the text of the
  message; a \<^verbatim>\<open>Challenge\<close> without a secret fails with the authentication-required
  error; any other message fails with the unexpected-initial-message error; and the
  three failures close the socket. Whenever \<^verbatim>\<open>NewClient\<close> fails, no client is returned
  and either the dial failed, and there is no socket, or the socket is closed.
\<close>

theorem NewClient_initial_response:
  "(connectWithTimeout E to ControlPort 0 = Inr conn
      \<and> ((secret = [] \<and> d0 = NewDelimited conn)
           \<or> (secret \<noteq> [] \<and> ClientHandshake E (NewAuthenticator secret) (NewDelimited conn) = (None, d0)))
      \<and> SendJSON (json_Marshal E) (encodeHello desiredPort) d0 = (None, d1)
      \<and> RecvServer E True d1 = (Inr (Some msg), d2) \<longrightarrow>
        (Kind msg = ServerHello \<longrightarrow>
           (\<exists>c. NewClient E localHost localPort to desiredPort secret
                  = (Inr c, Some (d_conn d2), [LogConnected (Port msg)])
                \<and> RemotePort c = Port msg \<and> Connected c \<and> c_conn c = Some d2))
      \<and> (Kind msg = ServerError \<longrightarrow>
           NewClient E localHost localPort to desiredPort secret
             = (Inl (ServerErrorText (ErrorText msg)), Some (snd (conn_Close (d_conn d2))), []))
      \<and> (Kind msg = ServerChallenge \<and> secret = [] \<longrightarrow>
           NewClient E localHost localPort to desiredPort secret
             = (Inl AuthenticationRequired, Some (snd (conn_Close (d_conn d2))), []))
      \<and> (Kind msg \<notin> {ServerHello, ServerError, ServerChallenge} \<longrightarrow>
           NewClient E localHost localPort to desiredPort secret
             = (Inl (UnexpectedInitialMessage (Kind msg)), Some (snd (conn_Close (d_conn d2))), [])))
   \<and> (NewClient E localHost localPort to desiredPort secret = (Inl err, sock, lg) \<longrightarrow>
        (sock = None \<and> connectWithTimeout E to ControlPort 0 = Inl err)
        \<or> (\<exists>c. sock = Some c \<and> is_closed c))"
proof (intro conjI impI)
  assume "NewClient E localHost localPort to desiredPort secret = (Inl err, sock, lg)"
  then show "(sock = None \<and> connectWithTimeout E to ControlPort 0 = Inl err)
        \<or> (\<exists>c. sock = Some c \<and> is_closed c)"
    by (rule NewClient_failure_closes)
next
  assume a: "connectWithTimeout E to ControlPort 0 = Inr conn
      \<and> ((secret = [] \<and> d0 = NewDelimited conn)
           \<or> (secret \<noteq> [] \<and> ClientHandshake E (NewAuthenticator secret) (NewDelimited conn) = (None, d0)))
      \<and> SendJSON (json_Marshal E) (encodeHello desiredPort) d0 = (None, d1)
      \<and> RecvServer E True d1 = (Inr (Some msg), d2)"
  then have r: "NewClient E localHost localPort to desiredPort secret =
     (if Kind msg = ServerHello then
        (Inr \<lparr>c_conn = Some d2, c_to = to, c_localHost = localHost,
              c_localPort = localPort, c_remotePort = Port msg,
              c_auth = (if secret \<noteq> [] then Some (NewAuthenticator secret) else None),
              c_connected = True, c_activeProxies = 0,
              c_lastHeartbeat = 0, c_closeOnce = False\<rparr>,
         Some (d_conn d2), [LogConnected (Port msg)])
      else if Kind msg = ServerError then
        (Inl (ServerErrorText (ErrorText msg)), Some (snd (conn_Close (d_conn d2))), [])
      else if Kind msg = ServerChallenge then
        (Inl AuthenticationRequired, Some (snd (conn_Close (d_conn d2))), [])
      else
        (Inl (UnexpectedInitialMessage (Kind msg)), Some (snd (conn_Close (d_conn d2))), []))"
    using NewClient_response [of E to conn secret d0 desiredPort d1 msg d2 localHost localPort]
    by blast
  {
    assume "Kind msg = ServerHello"
    with r show "\<exists>c. NewClient E localHost localPort to desiredPort secret
                  = (Inr c, Some (d_conn d2), [LogConnected (Port msg)])
                \<and> RemotePort c = Port msg \<and> Connected c \<and> c_conn c = Some d2"
      by (simp add: RemotePort_def Connected_def)
  }
  {
    assume "Kind msg = ServerError"
    with r show "NewClient E localHost localPort to desiredPort secret
             = (Inl (ServerErrorText (ErrorText msg)), Some (snd (conn_Close (d_conn d2))), [])"
      by (simp add: kinds_distinct kinds_distinct [symmetric])
  }
  {
    assume "Kind msg = ServerChallenge \<and> secret = []"
    with r show "NewClient E localHost localPort to desiredPort secret
             = (Inl AuthenticationRequired, Some (snd (conn_Close (d_conn d2))), [])"
      by (simp add: kinds_distinct kinds_distinct [symmetric])
  }
  {
    assume "Kind msg \<notin> {ServerHello, ServerError, ServerChallenge}"
    with r show "NewClient E localHost localPort to desiredPort secret
             = (Inl (UnexpectedInitialMessage (Kind msg)), Some (snd (conn_Close (d_conn d2))), [])"
      by simp
  }
qed

lemma example_exchange:
  assumes "net_Dial example_env host ControlPort 0 = Inr (example_socket [frame @ [CHR 0x00]])"
    and "CHR 0x00 \<notin> set frame" and "length frame \<le> MaxFrameLength"
    and "decodeServerMessage example_env frame = Inr msg"
  shows "connectWithTimeout example_env host ControlPort 0
           = Inr (example_socket [frame @ [CHR 0x00]])
     \<and> SendJSON (json_Marshal example_env) (encodeHello 0)
           (NewDelimited (example_socket [frame @ [CHR 0x00]]))
         = (None, NewDelimited ((example_socket [frame @ [CHR 0x00]])
                     \<lparr>wr_deadline := True, sent := ''{\"Hello\":0}'' @ [CHR 0x00]\<rparr>))
     \<and> RecvServer example_env True
           (NewDelimited ((example_socket [frame @ [CHR 0x00]])
                     \<lparr>wr_deadline := True, sent := ''{\"Hello\":0}'' @ [CHR 0x00]\<rparr>))
         = (Inr (Some msg),
            NewDelimited ((example_socket [])
                     \<lparr>wr_deadline := True, rd_deadline := True,
                       sent := ''{\"Hello\":0}'' @ [CHR 0x00]\<rparr>))"
proof (intro conjI)
  show "connectWithTimeout example_env host ControlPort 0
           = Inr (example_socket [frame @ [CHR 0x00]])"
    using assms(1) by (simp add: connectWithTimeout_def)
  have m: "json_Marshal example_env (encodeHello 0) = Inr ''{\"Hello\":0}''"
    by (simp add: example_env_def encodeHello_def)
  show "SendJSON (json_Marshal example_env) (encodeHello 0)
           (NewDelimited (example_socket [frame @ [CHR 0x00]]))
         = (None, NewDelimited ((example_socket [frame @ [CHR 0x00]])
                     \<lparr>wr_deadline := True, sent := ''{\"Hello\":0}'' @ [CHR 0x00]\<rparr>))"
    using SendJSON_fresh [of "json_Marshal example_env" "encodeHello 0" "''{\"Hello\":0}''"
             "NewDelimited (example_socket [frame @ [CHR 0x00]])"] m
    by (simp add: MaxFrameLength_def NewDelimited_def example_socket_def is_closed_def)
  have "RecvFrame True
           (NewDelimited ((example_socket [frame @ [CHR 0x00]])
                     \<lparr>wr_deadline := True, sent := ''{\"Hello\":0}'' @ [CHR 0x00]\<rparr>))
         = (Inr (Some frame),
            NewDelimited ((example_socket [])
                     \<lparr>wr_deadline := True, rd_deadline := True,
                       sent := ''{\"Hello\":0}'' @ [CHR 0x00]\<rparr>))"
    using RecvFrame_state [of "NewDelimited ((example_socket [frame @ [CHR 0x00]])
                     \<lparr>wr_deadline := True, sent := ''{\"Hello\":0}'' @ [CHR 0x00]\<rparr>)"
                frame "[]" "[]" True] assms(2,3)
    by (simp add: NewDelimited_def example_socket_def is_closed_def)
  then show "RecvServer example_env True
           (NewDelimited ((example_socket [frame @ [CHR 0x00]])
                     \<lparr>wr_deadline := True, sent := ''{\"Hello\":0}'' @ [CHR 0x00]\<rparr>))
         = (Inr (Some msg),
            NewDelimited ((example_socket [])
                     \<lparr>wr_deadline := True, rd_deadline := True,
                       sent := ''{\"Hello\":0}'' @ [CHR 0x00]\<rparr>))"
    using assms(4) by (simp add: RecvServer_def)
qed

lemma example_decodes:
  "decodeServerMessage example_env ''{\"Hello\":9000}''
     = Inr (ServerMessage_zero\<lparr>Kind := ServerHello, Port := 9000\<rparr>)"
  "decodeServerMessage example_env ''{\"Error\":\"port in use\"}''
     = Inr (ServerMessage_zero\<lparr>Kind := ServerError, ErrorText := ''port in use''\<rparr>)"
  "decodeServerMessage example_env ''{\"Challenge\":\"123e4567-e89b-12d3-a456-426614174000\"}''
     = Inr (ServerMessage_zero\<lparr>Kind := ServerChallenge, ID := example_uuid\<rparr>)"
  "decodeServerMessage example_env ''{\"Connection\":\"123e4567-e89b-12d3-a456-426614174000\"}''
     = Inr (ServerMessage_zero\<lparr>Kind := ServerConnection, ID := example_uuid\<rparr>)"
  "decodeServerMessage example_env ''\"Heartbeat\"''
     = Inr (ServerMessage_zero\<lparr>Kind := ServerHeartbeat\<rparr>)"
  by (simp_all add: decodeServerMessage_def example_env_def example_scan_def ParseUint_def
      is_digit_def)

text \<open>The relays of the example network without a secret, and the relay that
  challenges with one.\<close>

theorem NewClient_initial_response_witness:
  "(\<exists>c. fst (NewClient example_env ''localhost'' 8000 ''bore.pub'' 0 []) = Inr c
         \<and> RemotePort c = 9000 \<and> Connected c)
   \<and> fst (NewClient example_env ''localhost'' 8000 ''busy.example'' 0 [])
       = Inl (ServerErrorText ''port in use'')
   \<and> fst (NewClient example_env ''localhost'' 8000 ''auth.example'' 0 [])
       = Inl AuthenticationRequired
   \<and> fst (NewClient example_env ''localhost'' 8000 ''odd.example'' 0 [])
       = Inl (UnexpectedInitialMessage ServerHeartbeat)
   \<and> (\<exists>c. fst (snd (NewClient example_env ''localhost'' 8000 ''auth.example'' 0 [])) = Some c
         \<and> is_closed c)
   \<and> (\<exists>c. fst (NewClient example_env ''localhost'' 8000 ''secure.example'' 0 ''my-secret'') = Inr c
         \<and> RemotePort c = 9000 \<and> Connected c)"
proof -
  let ?sent = "\<lambda>c. NewDelimited (c\<lparr>wr_deadline := True, sent := ''{\"Hello\":0}'' @ [CHR 0x00]\<rparr>)"
  let ?d2 = "NewDelimited ((example_socket [])
                     \<lparr>wr_deadline := True, rd_deadline := True,
                       sent := ''{\"Hello\":0}'' @ [CHR 0x00]\<rparr>)"
  have dial:
    "net_Dial example_env ''bore.pub'' ControlPort 0
       = Inr (example_socket [''{\"Hello\":9000}'' @ [CHR 0x00]])"
    "net_Dial example_env ''busy.example'' ControlPort 0
       = Inr (example_socket [''{\"Error\":\"port in use\"}'' @ [CHR 0x00]])"
    "net_Dial example_env ''auth.example'' ControlPort 0
       = Inr (example_socket
               [''{\"Challenge\":\"123e4567-e89b-12d3-a456-426614174000\"}'' @ [CHR 0x00]])"
    "net_Dial example_env ''odd.example'' ControlPort 0
       = Inr (example_socket [''\"Heartbeat\"'' @ [CHR 0x00]])"
    by (simp_all add: example_env_def example_dial_def)
  note x1 = example_exchange [OF dial(1) _ _ example_decodes(1), simplified MaxFrameLength_def, simplified]
  note x2 = example_exchange [OF dial(2) _ _ example_decodes(2), simplified MaxFrameLength_def, simplified]
  note x3 = example_exchange [OF dial(3) _ _ example_decodes(3), simplified MaxFrameLength_def, simplified]
  note x4 = example_exchange [OF dial(4) _ _ example_decodes(5), simplified MaxFrameLength_def, simplified]
  have w1: "\<exists>c. fst (NewClient example_env ''localhost'' 8000 ''bore.pub'' 0 []) = Inr c
         \<and> RemotePort c = 9000 \<and> Connected c"
    using NewClient_initial_response
      [of example_env "''bore.pub''" "example_socket [''{\"Hello\":9000}'' @ [CHR 0x00]]" "[]"
          "NewDelimited (example_socket [''{\"Hello\":9000}'' @ [CHR 0x00]])" 0
          "?sent (example_socket [''{\"Hello\":9000}'' @ [CHR 0x00]])"
          "ServerMessage_zero\<lparr>Kind := ServerHello, Port := 9000\<rparr>" ?d2
          "''localhost''" 8000 EOF None "[]"] x1
    by auto
  have w2: "fst (NewClient example_env ''localhost'' 8000 ''busy.example'' 0 [])
       = Inl (ServerErrorText ''port in use'')"
    using NewClient_initial_response
      [of example_env "''busy.example''"
          "example_socket [''{\"Error\":\"port in use\"}'' @ [CHR 0x00]]" "[]"
          "NewDelimited (example_socket [''{\"Error\":\"port in use\"}'' @ [CHR 0x00]])" 0
          "?sent (example_socket [''{\"Error\":\"port in use\"}'' @ [CHR 0x00]])"
          "ServerMessage_zero\<lparr>Kind := ServerError, ErrorText := ''port in use''\<rparr>" ?d2
          "''localhost''" 8000 EOF None "[]"] x2
    by auto
  have w3: "NewClient example_env ''localhost'' 8000 ''auth.example'' 0 []
       = (Inl AuthenticationRequired, Some (snd (conn_Close (d_conn ?d2))), [])"
    using NewClient_initial_response
      [of example_env "''auth.example''"
          "example_socket [''{\"Challenge\":\"123e4567-e89b-12d3-a456-426614174000\"}'' @ [CHR 0x00]]" "[]"
          "NewDelimited (example_socket [''{\"Challenge\":\"123e4567-e89b-12d3-a456-426614174000\"}'' @ [CHR 0x00]])" 0
          "?sent (example_socket [''{\"Challenge\":\"123e4567-e89b-12d3-a456-426614174000\"}'' @ [CHR 0x00]])"
          "ServerMessage_zero\<lparr>Kind := ServerChallenge, ID := example_uuid\<rparr>" ?d2
          "''localhost''" 8000 EOF None "[]"] x3
    by auto
  have w4: "fst (NewClient example_env ''localhost'' 8000 ''odd.example'' 0 [])
       = Inl (UnexpectedInitialMessage ServerHeartbeat)"
    using NewClient_initial_response
      [of example_env "''odd.example''"
          "example_socket [''\"Heartbeat\"'' @ [CHR 0x00]]" "[]"
          "NewDelimited (example_socket [''\"Heartbeat\"'' @ [CHR 0x00]])" 0
          "?sent (example_socket [''\"Heartbeat\"'' @ [CHR 0x00]])"
          "ServerMessage_zero\<lparr>Kind := ServerHeartbeat\<rparr>" ?d2
          "''localhost''" 8000 EOF None "[]"] x4
    by (auto simp: kinds_distinct)
  have w5: "\<exists>c. fst (snd (NewClient example_env ''localhost'' 8000 ''auth.example'' 0 [])) = Some c
         \<and> is_closed c"
    using NewClient_initial_response
      [of example_env "''auth.example''" _ "[]" _ 0 _ _ _ "''localhost''" 8000
          AuthenticationRequired "Some (snd (conn_Close (d_conn ?d2)))" "[]"] w3
    by auto
  let ?schallenge = "''{\"Challenge\":\"123e4567-e89b-12d3-a456-426614174000\"}''"
  let ?shello = "''{\"Hello\":9000}''"
  let ?ssock = "example_socket [?schallenge @ [CHR 0x00], ?shello @ [CHR 0x00]]"
  let ?sa = "NewAuthenticator ''my-secret''"
  let ?sauth = "''{\"Authenticate\":\"'' @ Answer ?sa example_uuid @ ''\"}''"
  let ?g0 = "NewDelimited ?ssock"
  let ?g0' = "?g0\<lparr>d_conn := (d_conn ?g0)\<lparr>rd_deadline := True, rx := [RdData (?shello @ [CHR 0x00])]\<rparr>,
                   d_r := []\<rparr>"
  let ?g1 = "?g0'\<lparr>d_conn := (d_conn ?g0')\<lparr>wr_deadline := True,
                 sent := sent (d_conn ?g0') @ ?sauth @ [CHR 0x00]\<rparr>\<rparr>"
  let ?g2 = "?g1\<lparr>d_conn := (d_conn ?g1)\<lparr>wr_deadline := True,
                 sent := sent (d_conn ?g1) @ ''{\"Hello\":0}'' @ [CHR 0x00]\<rparr>\<rparr>"
  let ?g3 = "?g2\<lparr>d_conn := (d_conn ?g2)\<lparr>rd_deadline := True, rx := []\<rparr>, d_r := []\<rparr>"
  have gd1: "connectWithTimeout example_env ''secure.example'' ControlPort 0 = Inr ?ssock"
    by (simp add: connectWithTimeout_def example_env_def example_dial_def)
  have grf: "RecvFrame True ?g0 = (Inr (Some ?schallenge), ?g0')"
    using RecvFrame_state [of ?g0 ?schallenge "[]" "[RdData (?shello @ [CHR 0x00])]" True]
    by (simp add: NewDelimited_def example_socket_def is_closed_def MaxFrameLength_def)
  have grs: "RecvServer example_env True ?g0
              = (Inr (Some (ServerMessage_zero\<lparr>Kind := ServerChallenge, ID := example_uuid\<rparr>)), ?g0')"
    using grf example_decodes(3) by (simp add: RecvServer_def)
  have gm1: "json_Marshal example_env (encodeAuthenticate (Answer ?sa example_uuid)) = Inr ?sauth"
    by (simp add: example_env_def encodeAuthenticate_def)
  have gs1: "SendJSON (json_Marshal example_env) (encodeAuthenticate (Answer ?sa example_uuid)) ?g0'
              = (None, ?g1)"
    using SendJSON_fresh [of "json_Marshal example_env"
            "encodeAuthenticate (Answer ?sa example_uuid)" ?sauth ?g0'] gm1
    by (simp add: MaxFrameLength_def length_Answer NewDelimited_def example_socket_def
        is_closed_def)
  have ghs: "ClientHandshake example_env ?sa ?g0 = (None, ?g1)"
    using grs gs1 by (simp add: ClientHandshake_def Let_def)
  have gm2: "json_Marshal example_env (encodeHello 0) = Inr ''{\"Hello\":0}''"
    by (simp add: example_env_def encodeHello_def)
  have gs2: "SendJSON (json_Marshal example_env) (encodeHello 0) ?g1 = (None, ?g2)"
    using SendJSON_fresh [of "json_Marshal example_env" "encodeHello 0" "''{\"Hello\":0}''" ?g1] gm2
    by (simp add: MaxFrameLength_def NewDelimited_def example_socket_def is_closed_def)
  have grf2: "RecvFrame True ?g2 = (Inr (Some ?shello), ?g3)"
    using RecvFrame_state [of ?g2 ?shello "[]" "[]" True]
    by (simp add: NewDelimited_def example_socket_def is_closed_def MaxFrameLength_def)
  have grs2: "RecvServer example_env True ?g2
              = (Inr (Some (ServerMessage_zero\<lparr>Kind := ServerHello, Port := 9000\<rparr>)), ?g3)"
    using grf2 example_decodes(1) by (simp add: RecvServer_def)
  have w6: "\<exists>c. fst (NewClient example_env ''localhost'' 8000 ''secure.example'' 0 ''my-secret'') = Inr c
         \<and> RemotePort c = 9000 \<and> Connected c"
    using NewClient_initial_response
      [of example_env "''secure.example''" ?ssock "''my-secret''" ?g1 0 ?g2
          "ServerMessage_zero\<lparr>Kind := ServerHello, Port := 9000\<rparr>" ?g3
          "''localhost''" 8000 EOF None "[]"] gd1 ghs gs2 grs2
    by auto
  from w1 w2 w3 w4 w5 w6 show ?thesis by simp
qed

subsection \<open>The receive loop\<close>

lemma RecvServer_clean_eof:
  assumes "\<not> is_closed (d_conn d)" and "CHR 0x00 \<notin> set (incoming d)"
    and "ending (rx (d_conn d)) = EOF"
  shows "fst (RecvServer E timeout d) = Inr None"
proof -
  have "fst (RecvFrame timeout d) = Inr None"
    using RecvFrame_not_found [OF assms(1,2), of timeout] assms(3) by simp
  then show ?thesis
    by (cases "RecvFrame timeout d") (simp add: RecvServer_def)
qed

text \<open>
  Claim C7. One round of the loop of \<^verbatim>\<open>Listen\<close>, on a client with a control
  connection. When the relay has closed and nothing is left to read, the round returns
  no error and so does the loop. When the message received is a \<^verbatim>\<open>Heartbeat\<close>, the
  round stores the reading of the clock as the last heartbeat and the loop goes on; a
  \<^verbatim>\<open>Connection\<close> starts a goroutine that handles the connection of that id, and the
  loop goes on without running it; a \<^verbatim>\<open>Hello\<close> or a \<^verbatim>\<open>Challenge\<close> is logged as an
  unexpected control message and the loop goes on; an \<^verbatim>\<open>Error\<close> makes the round and
  the loop return the server error carrying the text of the message.
\<close>

theorem Listen_iter_cases:
  "c_conn (rt_client rt) = Some d \<longrightarrow>
     (\<not> is_closed (d_conn d) \<and> incoming d = [] \<and> ending (rx (d_conn d)) = EOF \<longrightarrow>
        fst (Listen_iter E rt) = Return None \<and> fst (Listen_loop E rt) = None)
   \<and> (RecvServer E False d = (Inr (Some msg), d') \<longrightarrow>
        (Kind msg = ServerHeartbeat \<longrightarrow>
           Listen_iter E rt =
             (Continue,
              rt\<lparr>rt_client := (rt_client rt)\<lparr>c_conn := Some d',
                                              c_lastHeartbeat := time_Now E (rt_now rt)\<rparr>,
                 rt_now := Suc (rt_now rt)\<rparr>))
      \<and> (Kind msg = ServerConnection \<longrightarrow>
           Listen_iter E rt =
             (Continue,
              rt\<lparr>rt_client := (rt_client rt)\<lparr>c_conn := Some d'\<rparr>,
                 rt_go := rt_go rt @ [HandleConnection (ID msg)]\<rparr>))
      \<and> (Kind msg = ServerHello \<or> Kind msg = ServerChallenge \<longrightarrow>
           Listen_iter E rt =
             (Continue,
              rt\<lparr>rt_client := (rt_client rt)\<lparr>c_conn := Some d'\<rparr>,
                 rt_log := rt_log rt @ [LogUnexpectedControl (Kind msg)]\<rparr>))
      \<and> (Kind msg = ServerError \<longrightarrow>
           Listen_iter E rt =
             (Return (Some (ServerErrorText (ErrorText msg))),
              rt\<lparr>rt_client := (rt_client rt)\<lparr>c_conn := Some d'\<rparr>\<rparr>)
           \<and> fst (Listen_loop E rt) = Some (ServerErrorText (ErrorText msg))))"
proof (intro impI conjI)
  assume c: "c_conn (rt_client rt) = Some d"
  {
    assume "\<not> is_closed (d_conn d) \<and> incoming d = [] \<and> ending (rx (d_conn d)) = EOF"
    then have "fst (RecvServer E False d) = Inr None"
      using RecvServer_clean_eof [of d E False] by simp
    then show r: "fst (Listen_iter E rt) = Return None"
      using c by (cases "RecvServer E False d") (simp add: Listen_iter_def)
    then show "fst (Listen_loop E rt) = None"
      by (cases "Listen_iter E rt") (simp add: Listen_loop.simps)
  }
  assume m: "RecvServer E False d = (Inr (Some msg), d')"
  {
    assume "Kind msg = ServerHeartbeat"
    then show "Listen_iter E rt =
             (Continue,
              rt\<lparr>rt_client := (rt_client rt)\<lparr>c_conn := Some d',
                                              c_lastHeartbeat := time_Now E (rt_now rt)\<rparr>,
                 rt_now := Suc (rt_now rt)\<rparr>)"
      using c m by (simp add: Listen_iter_def)
  }
  {
    assume "Kind msg = ServerConnection"
    then show "Listen_iter E rt =
             (Continue,
              rt\<lparr>rt_client := (rt_client rt)\<lparr>c_conn := Some d'\<rparr>,
                 rt_go := rt_go rt @ [HandleConnection (ID msg)]\<rparr>)"
      using c m by (simp add: Listen_iter_def kinds_distinct kinds_distinct [symmetric])
  }
  {
    assume "Kind msg = ServerHello \<or> Kind msg = ServerChallenge"
    then show "Listen_iter E rt =
             (Continue,
              rt\<lparr>rt_client := (rt_client rt)\<lparr>c_conn := Some d'\<rparr>,
                 rt_log := rt_log rt @ [LogUnexpectedControl (Kind msg)]\<rparr>)"
      using c m by (auto simp add: Listen_iter_def kinds_distinct kinds_distinct [symmetric])
  }
  {
    assume "Kind msg = ServerError"
    then show r: "Listen_iter E rt =
             (Return (Some (ServerErrorText (ErrorText msg))),
              rt\<lparr>rt_client := (rt_client rt)\<lparr>c_conn := Some d'\<rparr>\<rparr>)"
      using c m by (auto simp add: Listen_iter_def kinds_distinct kinds_distinct [symmetric])
    show "fst (Listen_loop E rt) = Some (ServerErrorText (ErrorText msg))"
      using r by (simp add: Listen_loop.simps)
  }
qed

lemma example_recv:
  assumes "CHR 0x00 \<notin> set frame" and "length frame \<le> MaxFrameLength"
    and "decodeServerMessage example_env frame = Inr msg"
  shows "RecvServer example_env False (NewDelimited (example_socket [frame @ [CHR 0x00]]))
           = (Inr (Some msg), NewDelimited (example_socket []))"
proof -
  have "RecvFrame False (NewDelimited (example_socket [frame @ [CHR 0x00]]))
          = (Inr (Some frame), NewDelimited (example_socket []))"
    using RecvFrame_state [of "NewDelimited (example_socket [frame @ [CHR 0x00]])"
                frame "[]" "[]" False] assms(1,2)
    by (simp add: NewDelimited_def example_socket_def is_closed_def)
  then show ?thesis using assms(3) by (simp add: RecvServer_def)
qed

text \<open>A relay that closes, and relays that send one message of each kind.\<close>

theorem Listen_iter_cases_witness:
  "fst (Listen_iter example_env (example_runtime [])) = Return None
   \<and> fst (Listen_iter example_env (example_runtime [''\"Heartbeat\"'' @ [CHR 0x00]])) = Continue
   \<and> LastHeartbeat (rt_client (snd (Listen_iter example_env
          (example_runtime [''\"Heartbeat\"'' @ [CHR 0x00]])))) = Some 1700000000000000000
   \<and> fst (Listen_iter example_env (example_runtime
          [''{\"Connection\":\"123e4567-e89b-12d3-a456-426614174000\"}'' @ [CHR 0x00]])) = Continue
   \<and> rt_go (snd (Listen_iter example_env (example_runtime
          [''{\"Connection\":\"123e4567-e89b-12d3-a456-426614174000\"}'' @ [CHR 0x00]])))
       = [HandleConnection example_uuid]
   \<and> fst (Listen_iter example_env (example_runtime [''{\"Hello\":9000}'' @ [CHR 0x00]])) = Continue
   \<and> rt_log (snd (Listen_iter example_env (example_runtime [''{\"Hello\":9000}'' @ [CHR 0x00]])))
       = [LogUnexpectedControl ServerHello]
   \<and> fst (Listen_iter example_env (example_runtime
          [''{\"Error\":\"port in use\"}'' @ [CHR 0x00]]))
       = Return (Some (ServerErrorText ''port in use''))"
proof -
  note r1 = example_recv [OF _ _ example_decodes(5), simplified MaxFrameLength_def, simplified]
  note r2 = example_recv [OF _ _ example_decodes(4), simplified MaxFrameLength_def, simplified]
  note r3 = example_recv [OF _ _ example_decodes(1), simplified MaxFrameLength_def, simplified]
  note r4 = example_recv [OF _ _ example_decodes(2), simplified MaxFrameLength_def, simplified]
  have c: "\<And>chunks. c_conn (rt_client (example_runtime chunks))
             = Some (NewDelimited (example_socket chunks))"
    by (simp add: example_runtime_def)
  have e: "\<not> is_closed (d_conn (NewDelimited (example_socket [])))
           \<and> incoming (NewDelimited (example_socket [])) = []
           \<and> ending (rx (d_conn (NewDelimited (example_socket [])))) = EOF"
    by (simp add: NewDelimited_def example_socket_def is_closed_def incoming_def)
  have w0: "fst (Listen_iter example_env (example_runtime [])) = Return None"
    using Listen_iter_cases [of "example_runtime []" "NewDelimited (example_socket [])" example_env]
      c e by blast
  have w1: "Listen_iter example_env (example_runtime [''\"Heartbeat\"'' @ [CHR 0x00]]) =
      (Continue, (example_runtime [''\"Heartbeat\"'' @ [CHR 0x00]])
         \<lparr>rt_client := (rt_client (example_runtime [''\"Heartbeat\"'' @ [CHR 0x00]]))
               \<lparr>c_conn := Some (NewDelimited (example_socket [])),
                c_lastHeartbeat := time_Now example_env
                     (rt_now (example_runtime [''\"Heartbeat\"'' @ [CHR 0x00]]))\<rparr>,
           rt_now := Suc (rt_now (example_runtime [''\"Heartbeat\"'' @ [CHR 0x00]]))\<rparr>)"
    using Listen_iter_cases [of "example_runtime [''\"Heartbeat\"'' @ [CHR 0x00]]"
        "NewDelimited (example_socket [''\"Heartbeat\"'' @ [CHR 0x00]])" example_env
        "ServerMessage_zero\<lparr>Kind := ServerHeartbeat\<rparr>" "NewDelimited (example_socket [])"]
      c r1 by simp
  have w2: "Listen_iter example_env (example_runtime
          [''{\"Connection\":\"123e4567-e89b-12d3-a456-426614174000\"}'' @ [CHR 0x00]]) =
      (Continue, (example_runtime
          [''{\"Connection\":\"123e4567-e89b-12d3-a456-426614174000\"}'' @ [CHR 0x00]])
         \<lparr>rt_client := (rt_client (example_runtime
          [''{\"Connection\":\"123e4567-e89b-12d3-a456-426614174000\"}'' @ [CHR 0x00]]))
               \<lparr>c_conn := Some (NewDelimited (example_socket []))\<rparr>,
           rt_go := rt_go (example_runtime
          [''{\"Connection\":\"123e4567-e89b-12d3-a456-426614174000\"}'' @ [CHR 0x00]])
              @ [HandleConnection example_uuid]\<rparr>)"
    using Listen_iter_cases [of "example_runtime
          [''{\"Connection\":\"123e4567-e89b-12d3-a456-426614174000\"}'' @ [CHR 0x00]]"
        "NewDelimited (example_socket
          [''{\"Connection\":\"123e4567-e89b-12d3-a456-426614174000\"}'' @ [CHR 0x00]])" example_env
        "ServerMessage_zero\<lparr>Kind := ServerConnection, ID := example_uuid\<rparr>"
        "NewDelimited (example_socket [])"]
      c r2 by simp
  have w3: "Listen_iter example_env (example_runtime [''{\"Hello\":9000}'' @ [CHR 0x00]]) =
      (Continue, (example_runtime [''{\"Hello\":9000}'' @ [CHR 0x00]])
         \<lparr>rt_client := (rt_client (example_runtime [''{\"Hello\":9000}'' @ [CHR 0x00]]))
               \<lparr>c_conn := Some (NewDelimited (example_socket []))\<rparr>,
           rt_log := rt_log (example_runtime [''{\"Hello\":9000}'' @ [CHR 0x00]])
              @ [LogUnexpectedControl ServerHello]\<rparr>)"
    using Listen_iter_cases [of "example_runtime [''{\"Hello\":9000}'' @ [CHR 0x00]]"
        "NewDelimited (example_socket [''{\"Hello\":9000}'' @ [CHR 0x00]])" example_env
        "ServerMessage_zero\<lparr>Kind := ServerHello, Port := 9000\<rparr>"
        "NewDelimited (example_socket [])"]
      c r3 by simp
  have w4: "fst (Listen_iter example_env (example_runtime
          [''{\"Error\":\"port in use\"}'' @ [CHR 0x00]]))
       = Return (Some (ServerErrorText ''port in use''))"
    using Listen_iter_cases [of "example_runtime [''{\"Error\":\"port in use\"}'' @ [CHR 0x00]]"
        "NewDelimited (example_socket [''{\"Error\":\"port in use\"}'' @ [CHR 0x00]])" example_env
        "ServerMessage_zero\<lparr>Kind := ServerError, ErrorText := ''port in use''\<rparr>"
        "NewDelimited (example_socket [])"]
      c r4 by simp
  show ?thesis
    using w0 w1 w2 w3 w4
    by (simp add: LastHeartbeat_def example_runtime_def example_env_def)
qed

subsection \<open>A proxy session\<close>

lemma conn_Read_keeps:
  "conn_Read c = (r, c') \<Longrightarrow> sent c' = sent c \<and> tx c' = tx c"
  by (auto simp: conn_Read_def split: if_splits list.splits rd_event.splits)

lemma conn_Write_keeps:
  "conn_Write p c = (r, c') \<Longrightarrow> rx c' = rx c \<and> prefix (sent c) (sent c')"
  by (auto simp: conn_Write_def split: if_splits list.splits wr_event.splits)

lemma conn_Close_keeps [simp]:
  "sent (snd (conn_Close c)) = sent c" "rx (snd (conn_Close c)) = rx c"
  by (simp_all add: conn_Close_def)

lemma copy_to_a_inv:
  assumes "prefix (sent a0) (sent a)"
    and "(case st of
         Reading \<Rightarrow> sent a @ pending (rx b) = S
       | Writing bs \<Rightarrow> sent a @ bs @ pending (rx b) = S
       | Done r \<Rightarrow> prefix (sent a) S)"
    and "io_Copy_step st a b = (st', a', b')"
  shows "prefix (sent a0) (sent a') \<and>
     (case st' of
         Reading \<Rightarrow> sent a' @ pending (rx b') = S
       | Writing bs \<Rightarrow> sent a' @ bs @ pending (rx b') = S
       | Done r \<Rightarrow> prefix (sent a') S)"
proof (cases st)
  case Reading
  show ?thesis
  proof (cases "is_closed b")
    case True
    with assms Reading show ?thesis
      by (auto simp: io_Copy_step_def conn_Read_def)
  next
    case False
    show ?thesis
    proof (cases "rx b")
      case Nil
      with assms Reading False show ?thesis
        by (auto simp: io_Copy_step_def conn_Read_def)
    next
      case (Cons ev evs)
      with assms Reading False show ?thesis
        by (cases ev) (auto simp: io_Copy_step_def conn_Read_def split: if_splits)
    qed
  qed
next
  case (Writing bs)
  obtain nw ew a1 where w: "conn_Write bs a = ((nw, ew), a1)"
    by (cases "conn_Write bs a") auto
  have p: "prefix (sent a0) (sent a1)"
    using conn_Write_keeps [OF w] assms(1) by (auto intro: prefix_order.trans)
  show ?thesis
  proof (cases "is_closed a")
    case True
    with assms Writing show ?thesis
      by (auto simp: io_Copy_step_def conn_Write_def)
  next
    case False
    show ?thesis
    proof (cases "tx a")
      case Nil
      with assms Writing False show ?thesis
        by (auto simp: io_Copy_step_def conn_Write_def)
    next
      case (Cons ev evs)
      show ?thesis
      proof (cases ev)
        case WrOk
        with assms Writing False Cons show ?thesis
          by (auto simp: io_Copy_step_def conn_Write_def)
      next
        case (WrFail k e)
        have "prefix (sent a @ take (min k (length bs)) bs) (sent a @ bs @ pending (rx b))"
          by (simp add: take_is_prefix prefix_prefix)
        with assms Writing False Cons WrFail show ?thesis
          by (auto simp: io_Copy_step_def conn_Write_def)
      qed
    qed
  qed
next
  case (Done r)
  with assms show ?thesis by (auto simp: io_Copy_step_def)
qed

lemma copy_to_b_keeps:
  assumes "io_Copy_step st b a = (st', b', a')"
  shows "sent a' = sent a \<and> rx b' = rx b"
proof (cases st)
  case Reading
  obtain r a1 where rd: "conn_Read a = (r, a1)" by (cases "conn_Read a")
  from conn_Read_keeps [OF rd] assms Reading rd show ?thesis
    by (cases r) (auto simp: io_Copy_step_def split: if_splits)
next
  case (Writing bs)
  obtain nw ew b1 where w: "conn_Write bs b = ((nw, ew), b1)"
    by (cases "conn_Write bs b") auto
  from conn_Write_keeps [OF w] assms Writing w show ?thesis
    by (cases ew) (auto simp: io_Copy_step_def split: if_splits)
next
  case (Done r)
  with assms show ?thesis by (auto simp: io_Copy_step_def)
qed

lemma proxy_step_inv:
  assumes "relay_inv a0 S ps"
  shows "relay_inv a0 S (proxy_step who ps)"
proof (cases who)
  case CopyToA
  obtain st a b where c: "io_Copy_step (p_to_a ps) (p_a ps) (p_b ps) = (st, a, b)"
    by (cases "io_Copy_step (p_to_a ps) (p_a ps) (p_b ps)") auto
  have i: "prefix (sent a0) (sent (p_a ps))"
    and j: "(case p_to_a ps of
               Reading \<Rightarrow> sent (p_a ps) @ pending (rx (p_b ps)) = S
             | Writing bs \<Rightarrow> sent (p_a ps) @ bs @ pending (rx (p_b ps)) = S
             | Done r \<Rightarrow> prefix (sent (p_a ps)) S)"
    using assms by (simp_all add: relay_inv_def)
  from copy_to_a_inv [OF i j c]
  show ?thesis using CopyToA c
    by (simp add: relay_inv_def proxy_step_def cong: copier.case_cong)
next
  case CopyToB
  obtain st b a where c: "io_Copy_step (p_to_b ps) (p_b ps) (p_a ps) = (st, b, a)"
    by (cases "io_Copy_step (p_to_b ps) (p_b ps) (p_a ps)") auto
  from copy_to_b_keeps [OF c] assms
  show ?thesis using CopyToB c
    by (simp add: relay_inv_def proxy_step_def cong: copier.case_cong)
next
  case Main
  with assms show ?thesis
    by (cases "p_main ps"; cases "p_errCh ps")
       (simp_all add: relay_inv_def proxy_step_def cong: copier.case_cong)
qed

lemma proxy_run_inv:
  "relay_inv a0 S ps \<Longrightarrow> relay_inv a0 S (proxy_run sched ps)"
  by (induction sched arbitrary: ps) (simp_all add: proxy_step_inv)

lemma relay_inv_sent:
  assumes "relay_inv a0 (sent a0 @ P) ps"
  shows "\<exists>relayed. sent (p_a ps) = sent a0 @ relayed \<and> prefix relayed P"
proof -
  from assms obtain relayed where r: "sent (p_a ps) = sent a0 @ relayed"
    by (auto simp: relay_inv_def prefix_def)
  have "prefix (sent (p_a ps)) (sent a0 @ P)"
    using assms by (cases "p_to_a ps") (auto simp: relay_inv_def prefix_def)
  with r show ?thesis by auto
qed

lemma proxy_sent:
  "\<exists>relayed. sent (fst (snd (proxy sched a b))) = sent a @ relayed
             \<and> prefix relayed (pending (rx b))"
proof -
  let ?ps0 = "\<lparr>p_a = a, p_b = b, p_to_a = Reading, p_to_b = Reading,
                  p_errCh = [], p_main = AwaitFirst\<rparr>"
  have "relay_inv a (sent a @ pending (rx b)) ?ps0" by (simp add: relay_inv_def)
  then have "relay_inv a (sent a @ pending (rx b)) (proxy_run sched ?ps0)"
    by (rule proxy_run_inv)
  from relay_inv_sent [OF this] show ?thesis by (simp add: proxy_def Let_def)
qed

lemma conn_Write_sent:
  "conn_Write p c = ((nw, ew), c') \<Longrightarrow>
   sent c' = sent c @ take nw p \<and> (ew = None \<longrightarrow> nw = length p)"
  by (auto simp: conn_Write_def split: if_splits list.splits wr_event.splits)

lemma BufferedData_drains:
  "BufferedData d = (r, d') \<Longrightarrow> r = Inr (d_r d) \<and> d_r d' = [] \<and> d_conn d' = d_conn d"
  by (auto simp: BufferedData_def Let_def split: if_splits)

text \<open>
  Claim C8. A proxy session that has dialled the relay, passed the handshake (when the
  client has an authenticator), sent \<^verbatim>\<open>Accept\<close>, found the bytes \<open>b\<close> buffered in its
  framed connection and dialled the local service: \<open>b\<close> is all the reader had buffered,
  and the buffer is left empty. When the write of \<open>b\<close> to the local socket succeeds,
  then under every schedule of the relay and at every moment of it the local socket has
  been given what it had before, then exactly \<open>b\<close>, then an initial part of the bytes
  the relay sends after them, in their order. When that write fails, the session
  returns the error, the local socket is closed with a part of \<open>b\<close> and nothing else.
\<close>

theorem handleConnection_buffered_first:
  "connectWithTimeout E (c_to c) ControlPort n = Inr remoteConn
   \<and> ((c_auth c = None \<and> framed1 = NewDelimited remoteConn)
        \<or> (c_auth c = Some a \<and> ClientHandshake E a (NewDelimited remoteConn) = (None, framed1)))
   \<and> SendJSON (json_Marshal E) (encodeAccept uid) framed1 = (None, framed2)
   \<and> BufferedData (framed2\<lparr>d_conn := snd (SetDeadline False (d_conn framed2))\<rparr>) = (Inr b, framed3)
   \<and> connectWithTimeout E (c_localHost c) (c_localPort c) (Suc n) = Inr localConn
   \<longrightarrow>
     b = d_r framed2 \<and> d_r framed3 = []
     \<and> ((if 0 < length b then conn_Write b localConn else ((0, None), localConn))
           = ((nw, None), local1) \<longrightarrow>
         (\<exists>local relayed. h_local (handleConnection E c uid n sched) = Some local
             \<and> sent local = sent localConn @ b @ relayed
             \<and> prefix relayed (pending (rx (d_conn framed3)))))
     \<and> ((if 0 < length b then conn_Write b localConn else ((0, None), localConn))
           = ((nw, Some err), local1) \<longrightarrow>
         h_result (handleConnection E c uid n sched) = Some (Some (WriteBufferedToLocal err))
         \<and> (\<exists>local. h_local (handleConnection E c uid n sched) = Some local
               \<and> is_closed local \<and> sent local = sent localConn @ take nw b))"
proof (intro impI conjI)
  assume h: "connectWithTimeout E (c_to c) ControlPort n = Inr remoteConn
   \<and> ((c_auth c = None \<and> framed1 = NewDelimited remoteConn)
        \<or> (c_auth c = Some a \<and> ClientHandshake E a (NewDelimited remoteConn) = (None, framed1)))
   \<and> SendJSON (json_Marshal E) (encodeAccept uid) framed1 = (None, framed2)
   \<and> BufferedData (framed2\<lparr>d_conn := snd (SetDeadline False (d_conn framed2))\<rparr>) = (Inr b, framed3)
   \<and> connectWithTimeout E (c_localHost c) (c_localPort c) (Suc n) = Inr localConn"
  let ?w = "if 0 < length b then conn_Write b localConn else ((0, None), localConn)"
  have hs: "(case c_auth c of None \<Rightarrow> (None, NewDelimited remoteConn)
            | Some a \<Rightarrow> ClientHandshake E a (NewDelimited remoteConn)) = (None, framed1)"
    using h by auto
  from h have bd: "b = d_r framed2 \<and> d_r framed3 = []"
    using BufferedData_drains
      [of "framed2\<lparr>d_conn := snd (SetDeadline False (d_conn framed2))\<rparr>" "Inr b" framed3]
    by simp
  from bd show "b = d_r framed2" and "d_r framed3 = []" by simp_all
  have s1: "\<And>ew. ?w = ((nw, ew), local1) \<Longrightarrow>
              sent local1 = sent localConn @ take nw b \<and> (ew = None \<longrightarrow> take nw b = b)"
  proof -
    fix ew
    assume w: "?w = ((nw, ew), local1)"
    show "sent local1 = sent localConn @ take nw b \<and> (ew = None \<longrightarrow> take nw b = b)"
    proof (cases "0 < length b")
      case True
      with w have "conn_Write b localConn = ((nw, ew), local1)" by simp
      from conn_Write_sent [OF this] show ?thesis by auto
    next
      case False
      with w show ?thesis by auto
    qed
  qed
  {
    assume w: "?w = ((nw, None), local1)"
    obtain r af bf where p: "proxy sched local1 (RawConn framed3) = (r, af, bf)"
      by (cases "proxy sched local1 (RawConn framed3)") auto
    have hc: "handleConnection E c uid n sched =
            \<lparr>h_result = r,
             h_client = c\<lparr>c_activeProxies := c_activeProxies c + 1 + (- 1)\<rparr>,
             h_remote = Some bf, h_local = Some af\<rparr>"
      using h hs w p by (simp add: handleConnection_def Let_def)
    from proxy_sent [of sched local1 "RawConn framed3"] p
    obtain relayed where "sent af = sent local1 @ relayed"
      and "prefix relayed (pending (rx (d_conn framed3)))"
      by (auto simp: RawConn_def)
    with s1 [OF w] hc
    show "\<exists>local relayed. h_local (handleConnection E c uid n sched) = Some local
             \<and> sent local = sent localConn @ b @ relayed
             \<and> prefix relayed (pending (rx (d_conn framed3)))"
      by auto
  }
  {
    assume w: "?w = ((nw, Some err), local1)"
    have hc: "handleConnection E c uid n sched =
            \<lparr>h_result = Some (Some (WriteBufferedToLocal err)),
             h_client = c\<lparr>c_activeProxies := c_activeProxies c + 1 + (- 1)\<rparr>,
             h_remote = Some (d_conn (snd (Close framed3))),
             h_local = Some (snd (conn_Close local1))\<rparr>"
      using h hs w by (simp add: handleConnection_def Let_def)
    then show "h_result (handleConnection E c uid n sched)
                 = Some (Some (WriteBufferedToLocal err))"
      by simp
    from hc s1 [OF w]
    show "\<exists>local. h_local (handleConnection E c uid n sched) = Some local
               \<and> is_closed local \<and> sent local = sent localConn @ take nw b"
      by (simp add: conn_Close_def is_closed_def)
  }
qed

text \<open>A relay that sends the first bytes of the connection in the segment of its
  challenge, and the rest after it.\<close>

theorem handleConnection_buffered_first_witness:
  "\<exists>local relayed.
      h_local (handleConnection example_env example_auth_client example_uuid 0
                 [CopyToA, CopyToB, CopyToA, Main, CopyToA, CopyToA])
        = Some local
      \<and> sent local = ''GET / '' @ relayed \<and> prefix relayed ''HTTP/1.1''"
proof -
  let ?challenge = "''{\"Challenge\":\"123e4567-e89b-12d3-a456-426614174000\"}''"
  let ?remote = "example_socket [?challenge @ [CHR 0x00] @ ''GET / '', ''HTTP/1.1'']"
  let ?a = "NewAuthenticator ''my-secret''"
  let ?auth = "''{\"Authenticate\":\"'' @ Answer ?a example_uuid @ ''\"}''"
  let ?accept = "''{\"Accept\":\"123e4567-e89b-12d3-a456-426614174000\"}''"
  let ?f0 = "NewDelimited ?remote"
  let ?f0' = "?f0\<lparr>d_conn := (d_conn ?f0)\<lparr>rd_deadline := True, rx := [RdData ''HTTP/1.1'']\<rparr>,
                   d_r := ''GET / ''\<rparr>"
  let ?f1 = "?f0'\<lparr>d_conn := (d_conn ?f0')\<lparr>wr_deadline := True,
                 sent := sent (d_conn ?f0') @ ?auth @ [CHR 0x00]\<rparr>\<rparr>"
  let ?f2 = "?f1\<lparr>d_conn := (d_conn ?f1)\<lparr>wr_deadline := True,
                 sent := sent (d_conn ?f1) @ ?accept @ [CHR 0x00]\<rparr>\<rparr>"
  let ?f3 = "(?f2\<lparr>d_conn := snd (SetDeadline False (d_conn ?f2))\<rparr>)\<lparr>d_r := []\<rparr>"
  let ?local = "example_socket [''200 OK'']"
  have c: "c_to example_auth_client = ''relay.example''"
    "c_auth example_auth_client = Some ?a"
    "c_localHost example_auth_client = ''localhost''"
    "c_localPort example_auth_client = 8000"
    by (simp_all add: example_auth_client_def example_client_def)
  have d1: "connectWithTimeout example_env ''relay.example'' ControlPort 0 = Inr ?remote"
    by (simp add: connectWithTimeout_def example_env_def example_dial_def)
  have d2: "connectWithTimeout example_env ''localhost'' 8000 (Suc 0) = Inr ?local"
    by (simp add: connectWithTimeout_def example_env_def example_dial_def)
  have rf: "RecvFrame True ?f0 = (Inr (Some ?challenge), ?f0')"
    using RecvFrame_state [of ?f0 ?challenge "''GET / ''" "[RdData ''HTTP/1.1'']" True]
    by (simp add: NewDelimited_def example_socket_def is_closed_def MaxFrameLength_def)
  have rs: "RecvServer example_env True ?f0
              = (Inr (Some (ServerMessage_zero\<lparr>Kind := ServerChallenge, ID := example_uuid\<rparr>)), ?f0')"
    using rf example_decodes(3) by (simp add: RecvServer_def)
  have m1: "json_Marshal example_env (encodeAuthenticate (Answer ?a example_uuid)) = Inr ?auth"
    by (simp add: example_env_def encodeAuthenticate_def)
  have s1: "SendJSON (json_Marshal example_env) (encodeAuthenticate (Answer ?a example_uuid)) ?f0'
              = (None, ?f1)"
    using SendJSON_fresh [of "json_Marshal example_env"
            "encodeAuthenticate (Answer ?a example_uuid)" ?auth ?f0'] m1
    by (simp add: MaxFrameLength_def length_Answer NewDelimited_def example_socket_def
        is_closed_def)
  have hs: "ClientHandshake example_env ?a ?f0 = (None, ?f1)"
    using rs s1 by (simp add: ClientHandshake_def Let_def)
  have m2: "json_Marshal example_env (encodeAccept example_uuid) = Inr ?accept"
    by (simp add: example_env_def encodeAccept_def)
  have s2: "SendJSON (json_Marshal example_env) (encodeAccept example_uuid) ?f1 = (None, ?f2)"
    using SendJSON_fresh [of "json_Marshal example_env" "encodeAccept example_uuid" ?accept ?f1] m2
    by (simp add: MaxFrameLength_def NewDelimited_def example_socket_def is_closed_def)
  have bd: "BufferedData (?f2\<lparr>d_conn := snd (SetDeadline False (d_conn ?f2))\<rparr>)
              = (Inr ''GET / '', ?f3)"
    by (simp add: BufferedData_def Let_def NewDelimited_def)
  have w: "(if 0 < length ''GET / '' then conn_Write ''GET / '' ?local else ((0, None), ?local))
             = ((6, None), ?local\<lparr>sent := ''GET / ''\<rparr>)"
    by (simp add: conn_Write_def example_socket_def is_closed_def)
  have p: "pending (rx (d_conn ?f3)) = ''HTTP/1.1''"
    by (simp add: SetDeadline_def NewDelimited_def example_socket_def is_closed_def)
  have sl: "sent ?local = []" by (simp add: example_socket_def)
  from handleConnection_buffered_first
         [of example_env example_auth_client 0 ?remote ?f1 ?a example_uuid ?f2 "''GET / ''" ?f3
             ?local 6 "?local\<lparr>sent := ''GET / ''\<rparr>"
             "[CopyToA, CopyToB, CopyToA, Main, CopyToA, CopyToA]" EOF]
       c d1 d2 hs s2 bd w
  have "\<exists>local relayed.
      h_local (handleConnection example_env example_auth_client example_uuid 0
                 [CopyToA, CopyToB, CopyToA, Main, CopyToA, CopyToA])
        = Some local
      \<and> sent local = sent ?local @ ''GET / '' @ relayed
      \<and> prefix relayed (pending (rx (d_conn ?f3)))"
    by simp
  then show ?thesis unfolding p sl by simp
qed

end
